theory Spec2Isabelle
  imports Complex_Main "HOL-Library.Log_Nat"
begin

section \<open>JavaScript values\<close>

text \<open>
  The script in \<^verbatim>\<open>static/script.js\<close> receives its data from \<^verbatim>\<open>response.json()\<close>, so
  the values it handles are the values of JSON, together with \<^verbatim>\<open>undefined\<close> (the result of
  reading a property that is absent).

  A Number is an IEEE 754 double. \<open>Finite neg m e\<close> is the finite double of magnitude
  \<open>m * 2 ^ e\<close>, negative when \<open>neg\<close> holds, with the significand \<open>0 \<le> m < 2 ^ 53\<close> and the
  exponent \<open>- 1074 \<le> e \<le> 971\<close>; \<open>m < 2 ^ 52\<close> (a subnormal number, or zero) only for
  \<open>e = - 1074\<close>, so that every double has one representation. \<open>Finite True 0 (- 1074)\<close> is
  the negative zero. Arithmetic computes the exact result, a ratio of two integers, and
  rounds it to the nearest double, ties to even, as ECMAScript prescribes.

  A String is a list of 8-bit characters: code units above 255 are outside the model.
  An object is the list of its properties, each name once.
\<close>

datatype jsnum = NaN | Infinity bool | Finite bool int int

datatype jsval =
    Undefined
  | Null
  | Bool bool
  | Num jsnum
  | Str string
  | Arr "jsval list"
  | Obj "(string \<times> jsval) list"

datatype js_error = TypeError | SyntaxError | Error string

subsection \<open>Rounding to a double\<close>

text \<open>\<open>shl x k\<close> is \<open>x * 2 ^ k\<close> for \<open>k > 0\<close>, and \<open>x\<close> otherwise.\<close>

definition shl :: "int \<Rightarrow> int \<Rightarrow> int" where
  "shl x k = (if 0 < k then x * 2 ^ nat k else x)"

text \<open>The magnitude \<open>m * 2 ^ e\<close> as a ratio \<open>a / b\<close> of integers, \<open>b > 0\<close>.\<close>

definition ratio :: "int \<Rightarrow> int \<Rightarrow> int \<times> int" where
  "ratio m e = (shl m e, shl 1 (- e))"

text \<open>The integer nearest to \<open>n / d\<close>, the even one on a tie, for \<open>n \<ge> 0\<close> and \<open>d > 0\<close>.\<close>

definition round_half_even_div :: "int \<Rightarrow> int \<Rightarrow> int" where
  "round_half_even_div n d =
     (let q = n div d; r = n mod d in
      if 2 * r < d then q else if d < 2 * r then q + 1 else if even q then q else q + 1)"

text \<open>
  The double nearest to the magnitude \<open>a / b\<close> (\<open>a \<ge> 0\<close>, \<open>b > 0\<close>), with the sign \<open>neg\<close>.
  \<open>fl\<close> is the binary exponent of \<open>a / b\<close>, that is \<open>2 ^ fl \<le> a / b < 2 ^ (fl + 1)\<close>; the
  unit in the last place is \<open>2 ^ (fl - 52)\<close>, and never below \<open>2 ^ - 1074\<close>. A result beyond
  the largest double is an infinity.
\<close>

definition round_ratio :: "bool \<Rightarrow> int \<Rightarrow> int \<Rightarrow> jsnum" where
  "round_ratio neg a b =
     (if a = 0 then Finite neg 0 (- 1074)
      else
        let d = bitlen a - bitlen b;
            fl = (if shl b d \<le> shl a (- d) then d else d - 1);
            e = max (fl - 52) (- 1074);
            m = round_half_even_div (shl a (- e)) (shl b e);
            e' = (if m = 2 ^ 53 then e + 1 else e);
            m' = (if m = 2 ^ 53 then 2 ^ 52 else m)
        in if 971 < e' then Infinity neg else Finite neg m' e')"

text \<open>The doubles, in the one representation that each has.\<close>

fun is_double :: "jsnum \<Rightarrow> bool" where
  "is_double (Finite neg m e) =
     (0 \<le> m \<and> m < 2 ^ 53 \<and> - 1074 \<le> e \<and> e \<le> 971 \<and> (2 ^ 52 \<le> m \<or> e = - 1074))"
| "is_double x = True"

text \<open>
  The numeric literals of the script: \<^verbatim>\<open>1000000000\<close> is \<open>int_lit 1000000000\<close>, and
  \<^verbatim>\<open>0.8\<close> is \<open>dec_lit 8 10\<close>.
\<close>

definition dec_lit :: "int \<Rightarrow> int \<Rightarrow> jsnum" where
  "dec_lit a b = round_ratio False a b"

definition int_lit :: "int \<Rightarrow> jsnum" where
  "int_lit n = round_ratio (n < 0) \<bar>n\<bar> 1"

subsection \<open>Arithmetic and comparison of Numbers\<close>

text \<open>\<^verbatim>\<open>x * y\<close> (Number::multiply).\<close>

fun num_multiply :: "jsnum \<Rightarrow> jsnum \<Rightarrow> jsnum" where
  "num_multiply NaN _ = NaN"
| "num_multiply _ NaN = NaN"
| "num_multiply (Infinity a) (Infinity b) = Infinity (a \<noteq> b)"
| "num_multiply (Infinity a) (Finite b m e) = (if m = 0 then NaN else Infinity (a \<noteq> b))"
| "num_multiply (Finite a m e) (Infinity b) = (if m = 0 then NaN else Infinity (a \<noteq> b))"
| "num_multiply (Finite a m e) (Finite b n f) =
     round_ratio (a \<noteq> b) (shl (m * n) (e + f)) (shl 1 (- (e + f)))"

text \<open>\<^verbatim>\<open>x / y\<close> (Number::divide).\<close>

fun num_divide :: "jsnum \<Rightarrow> jsnum \<Rightarrow> jsnum" where
  "num_divide NaN _ = NaN"
| "num_divide _ NaN = NaN"
| "num_divide (Infinity a) (Infinity b) = NaN"
| "num_divide (Infinity a) (Finite b n f) = Infinity (a \<noteq> b)"
| "num_divide (Finite a m e) (Infinity b) = Finite (a \<noteq> b) 0 (- 1074)"
| "num_divide (Finite a m e) (Finite b n f) =
     (if n = 0 then (if m = 0 then NaN else Infinity (a \<noteq> b))
      else round_ratio (a \<noteq> b) (shl m (e - f)) (shl n (f - e)))"

text \<open>
  \<^verbatim>\<open>x < y\<close> on Numbers (Number::lessThan): \<open>None\<close> is the result \<^verbatim>\<open>undefined\<close>, when an
  operand is NaN. The two zeros are equal.
\<close>

fun num_lessThan :: "jsnum \<Rightarrow> jsnum \<Rightarrow> bool option" where
  "num_lessThan NaN _ = None"
| "num_lessThan _ NaN = None"
| "num_lessThan (Infinity a) (Infinity b) = Some (a \<and> \<not> b)"
| "num_lessThan (Infinity a) (Finite b n f) = Some a"
| "num_lessThan (Finite a m e) (Infinity b) = Some (\<not> b)"
| "num_lessThan (Finite a m e) (Finite b n f) =
     Some (shl (if a then - m else m) (e - f) < shl (if b then - n else n) (f - e))"

text \<open>\<^verbatim>\<open>x >= y\<close>: false when \<^verbatim>\<open>x < y\<close> is true or undefined.\<close>

definition num_ge :: "jsnum \<Rightarrow> jsnum \<Rightarrow> bool" where
  "num_ge x y = (case num_lessThan x y of None \<Rightarrow> False | Some r \<Rightarrow> \<not> r)"

subsection \<open>Number to String\<close>

text \<open>The decimal digits of an integer \<open>n \<ge> 0\<close>, and their number.\<close>

function digits :: "int \<Rightarrow> string" where
  "digits n = (if n < 10 then [''0123456789'' ! nat n]
               else digits (n div 10) @ [''0123456789'' ! nat (n mod 10)])"
  by pat_completeness auto
termination
  by (relation "measure nat") auto

declare digits.simps [simp del]

function count_digits :: "int \<Rightarrow> int" where
  "count_digits n = (if n < 10 then 1 else count_digits (n div 10) + 1)"
  by pat_completeness auto
termination
  by (relation "measure nat") auto

declare count_digits.simps [simp del]

text \<open>\<open>scale10 (a, b) k\<close> is the ratio \<open>a / b * 10 ^ k\<close>.\<close>

fun scale10 :: "int \<times> int \<Rightarrow> int \<Rightarrow> int \<times> int" where
  "scale10 (a, b) k = (if 0 \<le> k then (a * 10 ^ nat k, b) else (a, b * 10 ^ nat (- k)))"

text \<open>
  \<open>decimal_exponent (a, b)\<close> is the \<open>n\<close> with \<open>10 ^ (n - 1) \<le> a / b < 10 ^ n\<close>, for
  \<open>a, b > 0\<close>.
\<close>

fun decimal_exponent :: "int \<times> int \<Rightarrow> int" where
  "decimal_exponent (a, b) =
     (let d = count_digits a - count_digits b
      in if a * 10 ^ nat (- d) < b * 10 ^ nat d then d else d + 1)"

text \<open>
  Number::toString looks for integers \<open>n\<close>, \<open>k\<close>, \<open>s\<close> with \<open>k \<ge> 1\<close>,
  \<open>10 ^ (k - 1) \<le> s < 10 ^ k\<close>, such that \<open>s * 10 ^ (n - k)\<close> rounds to \<open>x\<close> and \<open>k\<close> is as
  small as possible. For a given \<open>k\<close> the only candidates are the two \<open>k\<close>-digit decimals
  \<open>lo\<close> and \<open>lo + 1\<close> around \<open>x\<close>; where both round to \<open>x\<close> the nearer is taken (the even one
  on a tie), as all engines do. 17 digits always suffice for a double.
\<close>

definition rounds_to :: "int \<Rightarrow> int \<Rightarrow> int \<times> int \<Rightarrow> bool" where
  "rounds_to s k x = (case scale10 (s, 1) k of (p, q) \<Rightarrow>
     round_ratio False p q = Finite False (fst x) (snd x))"

definition digits_found :: "int \<times> int \<Rightarrow> nat \<Rightarrow> bool" where
  "digits_found x k =
     (let n = decimal_exponent (ratio (fst x) (snd x));
          lo = (case scale10 (ratio (fst x) (snd x)) (int k - n) of (a, b) \<Rightarrow> a div b)
      in rounds_to lo (n - int k) x \<or> rounds_to (lo + 1) (n - int k) x)"

definition pick_digits :: "int \<times> int \<Rightarrow> nat \<Rightarrow> int \<times> int" where
  "pick_digits x k =
     (let n = decimal_exponent (ratio (fst x) (snd x)) in
      case scale10 (ratio (fst x) (snd x)) (int k - n) of (a, b) \<Rightarrow>
        let lo = a div b;
            hi = lo + 1;
            ok_lo = rounds_to lo (n - int k) x;
            ok_hi = rounds_to hi (n - int k) x;
            d_lo = a - lo * b;
            d_hi = hi * b - a;
            s = (if ok_lo \<and> ok_hi
                 then (if d_lo < d_hi \<or> (d_lo = d_hi \<and> even lo) then lo else hi)
                 else if ok_lo then lo else hi)
        in if s = 10 ^ k then (n + 1, 10 ^ (k - 1)) else (n, s))"

function shortest_digits :: "int \<times> int \<Rightarrow> nat \<Rightarrow> int \<times> int" where
  "shortest_digits x k =
     (if digits_found x k \<or> 17 \<le> k then pick_digits x k else shortest_digits x (Suc k))"
  by pat_completeness auto
termination
  by (relation "measure (\<lambda>(x, k). 17 - k)") auto

declare shortest_digits.simps [simp del]

definition exponent_part :: "int \<Rightarrow> string" where
  "exponent_part e = (if 0 \<le> e then ''e+'' else ''e-'') @ digits \<bar>e\<bar>"

text \<open>Number::toString of the positive finite double \<open>m * 2 ^ e\<close>.\<close>

definition positive_toString :: "int \<Rightarrow> int \<Rightarrow> string" where
  "positive_toString m e =
     (case shortest_digits (m, e) 1 of (n, s) \<Rightarrow>
        let ds = digits s; k = int (length ds) in
        if k \<le> n \<and> n \<le> 21 then ds @ replicate (nat (n - k)) CHR ''0''
        else if 0 < n \<and> n \<le> 21 then take (nat n) ds @ ''.'' @ drop (nat n) ds
        else if - 6 < n \<and> n \<le> 0 then ''0.'' @ replicate (nat (- n)) CHR ''0'' @ ds
        else if k = 1 then ds @ exponent_part (n - 1)
        else take 1 ds @ ''.'' @ drop 1 ds @ exponent_part (n - 1))"

text \<open>Number::toString, radix 10.\<close>

fun Number_toString :: "jsnum \<Rightarrow> string" where
  "Number_toString NaN = ''NaN''"
| "Number_toString (Infinity neg) = (if neg then ''-Infinity'' else ''Infinity'')"
| "Number_toString (Finite neg m e) =
     (if m = 0 then ''0''
      else (if neg then ''-'' else []) @ positive_toString m e)"

text \<open>
  \<^verbatim>\<open>x.toFixed(f)\<close> (Number.prototype.toFixed), for \<open>0 \<le> f \<le> 100\<close>; the script only passes 2.
  A number that is not finite, or of magnitude \<open>10 ^ 21\<close> or more, is printed by
  Number::toString. Otherwise \<open>n\<close> is the integer nearest to \<open>x * 10 ^ f\<close>, the larger one on
  a tie, printed with \<open>f\<close> digits after the point.
\<close>

fun toFixed :: "nat \<Rightarrow> jsnum \<Rightarrow> string" where
  "toFixed f (Finite neg m e) =
     (let s = (if neg \<and> m \<noteq> 0 then ''-'' else []) in
      case ratio m e of (a, b) \<Rightarrow>
        if 10 ^ 21 * b \<le> a then s @ positive_toString m e
        else
          let n = (2 * a * 10 ^ f + b) div (2 * b);
              ds = digits n;
              ds = replicate (f + 1 - length ds) CHR ''0'' @ ds;
              k = length ds
          in s @ (if f = 0 then ds else take (k - f) ds @ ''.'' @ drop (k - f) ds))"
| "toFixed f x = Number_toString x"

declare toFixed.simps(1) [simp del]

subsection \<open>String to Number\<close>

text \<open>
  StringToNumber: white space around the literal is dropped (of the white space and line
  terminator characters, those below 256 are tab, line feed, vertical tab, form feed,
  carriage return, space and no-break space); the empty string is \<open>+0\<close>; a
  literal is \<^verbatim>\<open>Infinity\<close> or a decimal literal, with an optional sign, or an unsigned
  binary, octal or hexadecimal integer; anything else is NaN. The value of the literal is
  rounded exactly (engines do so; ECMAScript leaves a choice beyond 20 significant digits).
\<close>

definition is_space :: "char \<Rightarrow> bool" where
  "is_space c = (c \<in> set [CHR 0x09, CHR 0x0A, CHR 0x0B, CHR 0x0C, CHR 0x0D, CHR 0x20, CHR 0xA0])"

definition trim :: "string \<Rightarrow> string" where
  "trim s = rev (dropWhile is_space (rev (dropWhile is_space s)))"

definition is_digit :: "char \<Rightarrow> bool" where
  "is_digit c = (c \<in> set ''0123456789'')"

text \<open>The value of a digit in a radix up to 16, \<open>None\<close> when the character is not one.\<close>

definition digit_value :: "int \<Rightarrow> char \<Rightarrow> int option" where
  "digit_value radix c =
     (let n = int (of_char c);
          v = (if 48 \<le> n \<and> n \<le> 57 then n - 48
               else if 97 \<le> n \<and> n \<le> 102 then n - 87
               else if 65 \<le> n \<and> n \<le> 70 then n - 55
               else radix)
      in if v < radix then Some v else None)"

fun digits_value :: "int \<Rightarrow> int \<Rightarrow> string \<Rightarrow> int option" where
  "digits_value radix acc [] = Some acc"
| "digits_value radix acc (c # cs) =
     (case digit_value radix c of
        None \<Rightarrow> None
      | Some v \<Rightarrow> digits_value radix (acc * radix + v) cs)"

text \<open>A non-empty sequence of digits in the radix.\<close>

definition integer_value :: "int \<Rightarrow> string \<Rightarrow> int option" where
  "integer_value radix s = (if s = [] then None else digits_value radix 0 s)"

text \<open>ExponentPart, when present: \<^verbatim>\<open>e\<close> or \<^verbatim>\<open>E\<close>, an optional sign, decimal digits.\<close>

fun exponent_value :: "string \<Rightarrow> int option" where
  "exponent_value [] = Some 0"
| "exponent_value (c # r) =
     (if c = CHR ''e'' \<or> c = CHR ''E'' then
        (case r of
           [] \<Rightarrow> None
         | d # r' \<Rightarrow>
             if d = CHR ''-'' then map_option uminus (integer_value 10 r')
             else if d = CHR ''+'' then integer_value 10 r'
             else integer_value 10 r)
      else None)"

text \<open>
  StrUnsignedDecimalLiteral: \<^verbatim>\<open>Infinity\<close>, or digits with an optional fraction and an
  optional exponent, with a digit before or after the point. \<open>decimal_value\<close> is the value
  of the literal with the integer digits \<open>ip\<close>, the fraction digits \<open>fp\<close> and the exponent
  part \<open>ep\<close>.
\<close>

definition decimal_value :: "bool \<Rightarrow> string \<Rightarrow> string \<Rightarrow> string \<Rightarrow> jsnum" where
  "decimal_value neg ip fp ep =
     (if ip = [] \<and> fp = [] then NaN
      else
        (case (digits_value 10 0 (ip @ fp), exponent_value ep) of
           (Some v, Some ex) \<Rightarrow>
             (case scale10 (v, 1) (ex - int (length fp)) of (a, b) \<Rightarrow> round_ratio neg a b)
         | _ \<Rightarrow> NaN))"

definition unsigned_decimal :: "bool \<Rightarrow> string \<Rightarrow> jsnum" where
  "unsigned_decimal neg s =
     (if s = ''Infinity'' then Infinity neg
      else
        let ip = takeWhile is_digit s;
            r1 = dropWhile is_digit s;
            has_dot = (r1 \<noteq> [] \<and> hd r1 = CHR ''.'');
            fp = (if has_dot then takeWhile is_digit (tl r1) else []);
            ep = (if has_dot then dropWhile is_digit (tl r1) else r1)
        in decimal_value neg ip fp ep)"

definition radix_prefix :: "string \<Rightarrow> int option" where
  "radix_prefix s =
     (case s of
        c # d # _ \<Rightarrow>
          if c \<noteq> CHR ''0'' then None
          else if d = CHR ''x'' \<or> d = CHR ''X'' then Some 16
          else if d = CHR ''o'' \<or> d = CHR ''O'' then Some 8
          else if d = CHR ''b'' \<or> d = CHR ''B'' then Some 2
          else None
      | _ \<Rightarrow> None)"

definition StringToNumber :: "string \<Rightarrow> jsnum" where
  "StringToNumber s =
     (let t = trim s in
      if t = [] then Finite False 0 (- 1074)
      else
        (case radix_prefix t of
           Some radix \<Rightarrow>
             (case integer_value radix (drop 2 t) of
                None \<Rightarrow> NaN
              | Some v \<Rightarrow> round_ratio False v 1)
         | None \<Rightarrow>
             if hd t = CHR ''-'' then unsigned_decimal True (tl t)
             else if hd t = CHR ''+'' then unsigned_decimal False (tl t)
             else unsigned_decimal False t))"

subsection \<open>Conversions\<close>

text \<open>ToBoolean: the falsy values are undefined, null, false, the zeros, NaN and \<^verbatim>\<open>""\<close>.\<close>

fun ToBoolean :: "jsval \<Rightarrow> bool" where
  "ToBoolean Undefined = False"
| "ToBoolean Null = False"
| "ToBoolean (Bool b) = b"
| "ToBoolean (Num NaN) = False"
| "ToBoolean (Num (Infinity neg)) = True"
| "ToBoolean (Num (Finite neg m e)) = (m \<noteq> 0)"
| "ToBoolean (Str s) = (s \<noteq> [])"
| "ToBoolean (Arr vs) = True"
| "ToBoolean (Obj kvs) = True"

text \<open>\<^verbatim>\<open>xs.join(sep)\<close> on strings.\<close>

fun join :: "string \<Rightarrow> string list \<Rightarrow> string" where
  "join sep [] = []"
| "join sep [x] = x"
| "join sep (x # y # ys) = x @ sep @ join sep (y # ys)"

text \<open>The results of evaluating a list of expressions in order: the first error is thrown.\<close>

fun collect :: "('e + 'a) list \<Rightarrow> 'e + 'a list" where
  "collect [] = Inr []"
| "collect (Inl e # rs) = Inl e"
| "collect (Inr x # rs) = (case collect rs of Inl e \<Rightarrow> Inl e | Inr xs \<Rightarrow> Inr (x # xs))"

text \<open>
  ToString. An object made by \<^verbatim>\<open>JSON.parse\<close> has only data properties: it converts to
  \<^verbatim>\<open>[object Object]\<close> through \<^verbatim>\<open>Object.prototype.toString\<close>, unless it has a property
  named \<^verbatim>\<open>toString\<close> of its own, which is not callable: then the conversion throws a
  TypeError (whatever \<^verbatim>\<open>valueOf\<close> is, since it does not give a primitive). An array
  converts through \<^verbatim>\<open>join\<close>, where null and undefined elements give the empty string.
\<close>

fun ToString :: "jsval \<Rightarrow> js_error + string" where
  "ToString Undefined = Inr ''undefined''"
| "ToString Null = Inr ''null''"
| "ToString (Bool b) = Inr (if b then ''true'' else ''false'')"
| "ToString (Num n) = Inr (Number_toString n)"
| "ToString (Str s) = Inr s"
| "ToString (Arr vs) =
     (case collect (map (\<lambda>v. if v = Null \<or> v = Undefined then Inr [] else ToString v) vs) of
        Inl e \<Rightarrow> Inl e
      | Inr ss \<Rightarrow> Inr (join '','' ss))"
| "ToString (Obj kvs) =
     (if ''toString'' \<in> set (map fst kvs) then Inl TypeError else Inr ''[object Object]'')"

text \<open>
  ToNumber. An array or an object is first converted to a primitive, which is the string
  above (\<^verbatim>\<open>valueOf\<close> gives the object itself).
\<close>

fun ToNumber :: "jsval \<Rightarrow> js_error + jsnum" where
  "ToNumber Undefined = Inr NaN"
| "ToNumber Null = Inr (Finite False 0 (- 1074))"
| "ToNumber (Bool b) = Inr (if b then int_lit 1 else Finite False 0 (- 1074))"
| "ToNumber (Num n) = Inr n"
| "ToNumber (Str s) = Inr (StringToNumber s)"
| "ToNumber v = (case ToString v of Inl e \<Rightarrow> Inl e | Inr s \<Rightarrow> Inr (StringToNumber s))"

text \<open>
  \<^verbatim>\<open>v.name\<close>, for the property names that the script reads: none of them is defined by a
  built-in prototype, and none is an array index or \<^verbatim>\<open>length\<close>, so only the properties
  of an object of its own count. Reading a property of null or undefined throws.
\<close>

fun get_prop :: "jsval \<Rightarrow> string \<Rightarrow> js_error + jsval" where
  "get_prop Undefined name = Inl TypeError"
| "get_prop Null name = Inl TypeError"
| "get_prop (Obj kvs) name = Inr (case map_of kvs name of None \<Rightarrow> Undefined | Some v \<Rightarrow> v)"
| "get_prop v name = Inr Undefined"

section \<open>The formatting helpers\<close>

definition billion :: jsnum where
  "billion = int_lit 1000000000"

definition million :: jsnum where
  "million = int_lit 1000000"

text \<open>
  \<^verbatim>\<open>
  function formatMarketCap(value) {
      if (!value) return 'N/A';
      const billion = 1000000000;
      const million = 1000000;
      if (value >= billion) {
          return `$${(value / billion).toFixed(2)}B`;
      }
      return `$${(value / million).toFixed(2)}M`;
  }
  \<close>
\<close>

definition formatMarketCap :: "jsval \<Rightarrow> js_error + string" where
  "formatMarketCap value =
     (if \<not> ToBoolean value then Inr ''N/A''
      else
        (case ToNumber value of
           Inl e \<Rightarrow> Inl e
         | Inr x \<Rightarrow>
             if num_ge x billion
             then Inr (''$'' @ toFixed 2 (num_divide x billion) @ ''B'')
             else Inr (''$'' @ toFixed 2 (num_divide x million) @ ''M'')))"

text \<open>
  \<^verbatim>\<open>
  function formatNumber(value) {
      return value === 'N/A' ? 'N/A' : Number(value).toFixed(2);
  }
  \<close>
\<close>

definition formatNumber :: "jsval \<Rightarrow> js_error + string" where
  "formatNumber value =
     (if value = Str ''N/A'' then Inr ''N/A''
      else (case ToNumber value of Inl e \<Rightarrow> Inl e | Inr x \<Rightarrow> Inr (toFixed 2 x)))"

text \<open>
  \<^verbatim>\<open>
  function formatPercentage(value) {
      return value ? `${(value * 100).toFixed(2)}%` : 'N/A';
  }
  \<close>
\<close>

definition formatPercentage :: "jsval \<Rightarrow> js_error + string" where
  "formatPercentage value =
     (if ToBoolean value
      then (case ToNumber value of
              Inl e \<Rightarrow> Inl e
            | Inr x \<Rightarrow> Inr (toFixed 2 (num_multiply x (int_lit 100)) @ ''%''))
      else Inr ''N/A'')"

text \<open>
  \<^verbatim>\<open>
  function formatPrice(value) {
      return value ? `$${value.toFixed(2)}` : 'N/A';
  }
  \<close>
  Only a Number has a method \<^verbatim>\<open>toFixed\<close>: on any other truthy value the call throws.
\<close>

definition formatPrice :: "jsval \<Rightarrow> js_error + string" where
  "formatPrice value =
     (if ToBoolean value
      then (case value of Num x \<Rightarrow> Inr (''$'' @ toFixed 2 x) | _ \<Rightarrow> Inl TypeError)
      else Inr ''N/A'')"

text \<open>
  \<^verbatim>\<open>
  function formatVolume(value) {
      return value ? value.toLocaleString() : 'N/A';
  }
  \<close>
  What \<^verbatim>\<open>toLocaleString\<close> returns depends on the locale of the browser: it is a parameter.
\<close>

definition formatVolume :: "(jsval \<Rightarrow> js_error + string) \<Rightarrow> jsval \<Rightarrow> js_error + string" where
  "formatVolume toLocaleString value =
     (if ToBoolean value then toLocaleString value else Inr ''N/A'')"

section \<open>The page, the network and the charting library\<close>

text \<open>
  The nodes that the script and the charting library put into an element: a text node, an
  \<^verbatim>\<open>option\<close> element with its attributes and its text, and the element that the library
  makes for a chart. \<open>Unparsed m\<close> stands for the nodes that the browser makes of markup
  \<open>m\<close> which is outside the part of HTML modelled below.
\<close>

datatype node =
    Text_Node string
  | Option_Element "(string \<times> string) list" string
  | Chart_Element nat
  | Unparsed string

text \<open>
  The document is a map from element identifiers to elements; \<^verbatim>\<open>getElementById\<close> gives
  \<^verbatim>\<open>null\<close> for an identifier that the page does not define. An element has its children
  and, when it is a form control, its value \<open>val\<close>: the text of an input field, the value of
  the selected option of a selection control. What kind of element it is, the page decides,
  and with it two things that the script cannot see. \<open>value_assigned el ns str\<close> is the
  value after \<open>str\<close> was assigned to \<^verbatim>\<open>value\<close>, the children being \<open>ns\<close>: an input field
  sanitizes what it is given, in a way that depends on its type. \<open>value_with_children el ns v\<close>
  is the value once the children have become \<open>ns\<close>, having been \<open>v\<close> before: a selection
  control selects among its new options, an input field keeps its text. An element that
  refuses an assignment to \<^verbatim>\<open>value\<close>, as a file input does, is not described by this record.
\<close>

record element =
  val :: string
  children :: "node list"
  value_assigned :: "node list \<Rightarrow> string \<Rightarrow> string"
  value_with_children :: "node list \<Rightarrow> string \<Rightarrow> string"

text \<open>
  A request made with \<^verbatim>\<open>fetch\<close>. The body is kept as the value that the script hands to
  \<^verbatim>\<open>JSON.stringify\<close>.
\<close>

record request =
  http_method :: string
  url :: string
  headers :: "(string \<times> string) list"
  body :: "jsval option"

text \<open>
  The calls made to the charting library. A call that creates a chart or a series is
  identified afterwards by its position in the list of calls, which serves as the reference
  to the object it returned. \<open>FitContent c\<close> is \<^verbatim>\<open>c.timeScale().fitContent()\<close>. The library
  is taken to accept every call made on an element that exists.
\<close>

datatype lib_call =
    CreateChart string jsval
  | AddCandlestickSeries nat jsval
  | AddHistogramSeries nat jsval
  | SetData nat jsval
  | SetMarkers nat jsval
  | FitContent nat

datatype event =
    Fetch request
  | Alert string
  | ConsoleError string js_error

text \<open>
  The state: the document, the module variable \<^verbatim>\<open>chart\<close> (\<open>None\<close> is \<^verbatim>\<open>null\<close>), the calls
  made to the library, and the requests, alerts and console messages issued so far. The
  module variable \<^verbatim>\<open>volumeSeries\<close> is never assigned (\<^verbatim>\<open>renderChart\<close> declares a local
  constant of that name) and is left out.
\<close>

record state =
  document :: "string \<rightharpoonup> element"
  chart :: "nat option"
  lib :: "lib_call list"
  effects :: "event list"

text \<open>
  What the script cannot decide: how each request ends (the promise of \<^verbatim>\<open>fetch\<close> is
  rejected, or fulfilled with a response whose \<^verbatim>\<open>json()\<close> is rejected or gives a value),
  which of two requests made together is answered first, and \<^verbatim>\<open>toLocaleString\<close>. A response
  is kept as the way its \<^verbatim>\<open>json()\<close> settles.
\<close>

type_synonym response = "js_error + jsval"

definition json :: "response \<Rightarrow> js_error + jsval" where
  "json response = response"

record host =
  fetch_result :: "request \<Rightarrow> js_error + response"
  first_settles_first :: bool
  toLocaleString :: "jsval \<Rightarrow> js_error + string"

text \<open>
  A statement runs on a state and ends normally with a value or throws, in a new state. An
  \<^verbatim>\<open>async\<close> function is run to its end in one piece: \<open>Inl\<close> is then the rejection of its
  promise. What other handlers do while it waits is outside the model.
\<close>

type_synonym 'a js = "state \<Rightarrow> (js_error + 'a) \<times> state"

definition return :: "'a \<Rightarrow> 'a js" where
  "return x s = (Inr x, s)"

definition throw :: "js_error \<Rightarrow> 'a js" where
  "throw e s = (Inl e, s)"

definition lift :: "js_error + 'a \<Rightarrow> 'a js" where
  "lift r s = (r, s)"

definition bind :: "'a js \<Rightarrow> ('a \<Rightarrow> 'b js) \<Rightarrow> 'b js" where
  "bind m f s = (case m s of (Inl e, s') \<Rightarrow> (Inl e, s') | (Inr x, s') \<Rightarrow> f x s')"

text \<open>A sequence of statements: the first one that throws ends it.\<close>

fun block :: "unit js list \<Rightarrow> unit js" where
  "block [] = return ()"
| "block (m # ms) = bind m (\<lambda>_. block ms)"

definition try_catch :: "unit js \<Rightarrow> (js_error \<Rightarrow> unit js) \<Rightarrow> unit js" where
  "try_catch m handler s =
     (case m s of (Inl e, s') \<Rightarrow> handler e s' | (Inr x, s') \<Rightarrow> (Inr x, s'))"

definition bindE :: "'e + 'a \<Rightarrow> ('a \<Rightarrow> 'e + 'b) \<Rightarrow> 'e + 'b" where
  "bindE r f = (case r of Inl e \<Rightarrow> Inl e | Inr x \<Rightarrow> f x)"

subsection \<open>Markup\<close>

text \<open>
  Assigning to \<^verbatim>\<open>innerHTML\<close> has the browser parse the string as a fragment of HTML and
  put the nodes it finds in the place of the children. The part of the HTML standard that
  the markup of \<^verbatim>\<open>loadDbEntries\<close> needs is modelled: tags with their attributes, text, and
  \<^verbatim>\<open>option\<close> elements, in an element whose content is parsed as ordinary markup (a
  selection control or a block). Character references, comments and declarations, the
  replacement character that stands for a NUL inside a tag, and elements other than
  \<^verbatim>\<open>option\<close> are not: on them the result is \<open>None\<close>.

  The tokens: a character, a start tag with its attributes and its self-closing flag, an end
  tag. A tag under construction is kept as whether it is an end tag, its name and its
  attributes; the states of the tokenizer are those of the standard, with the tag, the
  attribute name and the attribute value read so far.
\<close>

datatype token =
    Character char
  | StartTag string "(string \<times> string) list" bool
  | EndTag string

type_synonym tag = "bool \<times> string \<times> (string \<times> string) list"

datatype tokenizer_state =
    Data
  | TagOpen
  | EndTagOpen
  | TagName bool string
  | BeforeAttributeName tag
  | AttributeName tag string
  | AfterAttributeName tag string
  | BeforeAttributeValue tag string
  | AttributeValueDoubleQuoted tag string string
  | AttributeValueSingleQuoted tag string string
  | AttributeValueUnquoted tag string string
  | AfterAttributeValueQuoted tag
  | SelfClosingStartTag tag

text \<open>Before the tokenizer runs, CR LF and a single CR become LF.\<close>

fun normalize_newlines :: "string \<Rightarrow> string" where
  "normalize_newlines [] = []"
| "normalize_newlines [c] = [if c = CHR 0x0D then CHR 0x0A else c]"
| "normalize_newlines (c # d # cs) =
     (if c = CHR 0x0D
      then CHR 0x0A # normalize_newlines (if d = CHR 0x0A then cs else d # cs)
      else c # normalize_newlines (d # cs))"

text \<open>The white space of the tokenizer (tab, line feed, form feed, space) and ASCII letters.\<close>

definition is_whitespace :: "char \<Rightarrow> bool" where
  "is_whitespace c = (c \<in> set [CHR 0x09, CHR 0x0A, CHR 0x0C, CHR 0x20])"

definition is_alpha :: "char \<Rightarrow> bool" where
  "is_alpha c = (c \<in> set ''ABCDEFGHIJKLMNOPQRSTUVWXYZabcdefghijklmnopqrstuvwxyz'')"

definition to_lower :: "char \<Rightarrow> char" where
  "to_lower c =
     (case map_of (zip ''ABCDEFGHIJKLMNOPQRSTUVWXYZ'' ''abcdefghijklmnopqrstuvwxyz'') c of
        None \<Rightarrow> c
      | Some l \<Rightarrow> l)"

text \<open>
  An attribute whose name the tag already has is dropped. An end tag is emitted without its
  attributes.
\<close>

fun add_attribute :: "string \<Rightarrow> string \<Rightarrow> tag \<Rightarrow> tag" where
  "add_attribute name v (end_tag, tag_name, attributes) =
     (end_tag, tag_name,
      if name \<in> set (map fst attributes) then attributes else attributes @ [(name, v)])"

fun tag_token :: "tag \<Rightarrow> bool \<Rightarrow> token" where
  "tag_token (end_tag, tag_name, attributes) self_closing =
     (if end_tag then EndTag tag_name else StartTag tag_name attributes self_closing)"

definition emit :: "token \<Rightarrow> token list option \<Rightarrow> token list option" where
  "emit t r = map_option ((#) t) r"

text \<open>
  The tokenizer, a state at a time. Where the standard reconsumes a character in another
  state, the character stays in the input; \<open>reconsumes\<close> bounds how often that can happen
  in a row. At the end of the input inside a tag, the tag is dropped.
\<close>

fun reconsumes :: "tokenizer_state \<Rightarrow> nat" where
  "reconsumes TagOpen = 1"
| "reconsumes EndTagOpen = 1"
| "reconsumes (BeforeAttributeName t) = 1"
| "reconsumes (AfterAttributeName t n) = 1"
| "reconsumes (BeforeAttributeValue t n) = 1"
| "reconsumes (AfterAttributeValueQuoted t) = 2"
| "reconsumes (SelfClosingStartTag t) = 2"
| "reconsumes st = 0"

function tokenize :: "tokenizer_state \<Rightarrow> string \<Rightarrow> token list option" where
  "tokenize st [] =
     (case st of
        TagOpen \<Rightarrow> Some [Character CHR ''<'']
      | EndTagOpen \<Rightarrow> Some [Character CHR ''<'', Character CHR ''/'']
      | _ \<Rightarrow> Some [])"
| "tokenize Data (c # cs) =
     (if c = CHR ''<'' then tokenize TagOpen cs
      else if c = CHR ''&'' then None
      else emit (Character c) (tokenize Data cs))"
| "tokenize TagOpen (c # cs) =
     (if c = CHR ''!'' \<or> c = CHR ''?'' then None
      else if c = CHR ''/'' then tokenize EndTagOpen cs
      else if is_alpha c then tokenize (TagName False []) (c # cs)
      else emit (Character CHR ''<'') (tokenize Data (c # cs)))"
| "tokenize EndTagOpen (c # cs) =
     (if is_alpha c then tokenize (TagName True []) (c # cs)
      else if c = CHR ''>'' then tokenize Data cs
      else None)"
| "tokenize (TagName e n) (c # cs) =
     (if is_whitespace c then tokenize (BeforeAttributeName (e, n, [])) cs
      else if c = CHR ''/'' then tokenize (SelfClosingStartTag (e, n, [])) cs
      else if c = CHR ''>'' then emit (tag_token (e, n, []) False) (tokenize Data cs)
      else if c = CHR 0x00 then None
      else tokenize (TagName e (n @ [to_lower c])) cs)"
| "tokenize (BeforeAttributeName t) (c # cs) =
     (if is_whitespace c then tokenize (BeforeAttributeName t) cs
      else if c = CHR ''/'' then tokenize (SelfClosingStartTag t) cs
      else if c = CHR ''>'' then emit (tag_token t False) (tokenize Data cs)
      else if c = CHR ''='' then tokenize (AttributeName t ''='') cs
      else tokenize (AttributeName t []) (c # cs))"
| "tokenize (AttributeName t n) (c # cs) =
     (if is_whitespace c then tokenize (AfterAttributeName t n) cs
      else if c = CHR ''/'' then tokenize (SelfClosingStartTag (add_attribute n [] t)) cs
      else if c = CHR ''>'' then emit (tag_token (add_attribute n [] t) False) (tokenize Data cs)
      else if c = CHR ''='' then tokenize (BeforeAttributeValue t n) cs
      else if c = CHR 0x00 then None
      else tokenize (AttributeName t (n @ [to_lower c])) cs)"
| "tokenize (AfterAttributeName t n) (c # cs) =
     (if is_whitespace c then tokenize (AfterAttributeName t n) cs
      else if c = CHR ''/'' then tokenize (SelfClosingStartTag (add_attribute n [] t)) cs
      else if c = CHR ''='' then tokenize (BeforeAttributeValue t n) cs
      else if c = CHR ''>'' then emit (tag_token (add_attribute n [] t) False) (tokenize Data cs)
      else tokenize (AttributeName (add_attribute n [] t) []) (c # cs))"
| "tokenize (BeforeAttributeValue t n) (c # cs) =
     (if is_whitespace c then tokenize (BeforeAttributeValue t n) cs
      else if c = CHR 0x22 then tokenize (AttributeValueDoubleQuoted t n []) cs
      else if c = CHR 0x27 then tokenize (AttributeValueSingleQuoted t n []) cs
      else if c = CHR ''>'' then emit (tag_token (add_attribute n [] t) False) (tokenize Data cs)
      else tokenize (AttributeValueUnquoted t n []) (c # cs))"
| "tokenize (AttributeValueDoubleQuoted t n v) (c # cs) =
     (if c = CHR 0x22 then tokenize (AfterAttributeValueQuoted (add_attribute n v t)) cs
      else if c = CHR ''&'' \<or> c = CHR 0x00 then None
      else tokenize (AttributeValueDoubleQuoted t n (v @ [c])) cs)"
| "tokenize (AttributeValueSingleQuoted t n v) (c # cs) =
     (if c = CHR 0x27 then tokenize (AfterAttributeValueQuoted (add_attribute n v t)) cs
      else if c = CHR ''&'' \<or> c = CHR 0x00 then None
      else tokenize (AttributeValueSingleQuoted t n (v @ [c])) cs)"
| "tokenize (AttributeValueUnquoted t n v) (c # cs) =
     (if is_whitespace c then tokenize (BeforeAttributeName (add_attribute n v t)) cs
      else if c = CHR ''&'' \<or> c = CHR 0x00 then None
      else if c = CHR ''>'' then emit (tag_token (add_attribute n v t) False) (tokenize Data cs)
      else tokenize (AttributeValueUnquoted t n (v @ [c])) cs)"
| "tokenize (AfterAttributeValueQuoted t) (c # cs) =
     (if is_whitespace c then tokenize (BeforeAttributeName t) cs
      else if c = CHR ''/'' then tokenize (SelfClosingStartTag t) cs
      else if c = CHR ''>'' then emit (tag_token t False) (tokenize Data cs)
      else tokenize (BeforeAttributeName t) (c # cs))"
| "tokenize (SelfClosingStartTag t) (c # cs) =
     (if c = CHR ''>'' then emit (tag_token t True) (tokenize Data cs)
      else tokenize (BeforeAttributeName t) (c # cs))"
  by pat_completeness auto
termination
  by (relation "measure (\<lambda>(st, cs). 3 * length cs + reconsumes st)") auto

text \<open>
  Tree construction, for \<^verbatim>\<open>option\<close> elements and text. A start tag \<^verbatim>\<open>option\<close> closes the
  option that is open and opens one; its end tag closes it; a character goes into the open
  option or else into the text node at the end of the children; a NUL character is ignored.
  \<open>ns\<close> are the children made so far and \<open>cur\<close> is the option that is open.
\<close>

definition append_text :: "char \<Rightarrow> node list \<Rightarrow> node list" where
  "append_text c ns =
     (case rev ns of
        Text_Node t # earlier \<Rightarrow> rev earlier @ [Text_Node (t @ [c])]
      | _ \<Rightarrow> ns @ [Text_Node [c]])"

fun close_option :: "((string \<times> string) list \<times> string) option \<Rightarrow> node list" where
  "close_option None = []"
| "close_option (Some (attributes, t)) = [Option_Element attributes t]"

fun construct ::
  "node list \<Rightarrow> ((string \<times> string) list \<times> string) option \<Rightarrow> token list \<Rightarrow> node list option"
where
  "construct ns cur [] = Some (ns @ close_option cur)"
| "construct ns cur (Character c # ts) =
     (if c = CHR 0x00 then construct ns cur ts
      else
        (case cur of
           None \<Rightarrow> construct (append_text c ns) None ts
         | Some (attributes, t) \<Rightarrow> construct ns (Some (attributes, t @ [c])) ts))"
| "construct ns cur (StartTag name attributes self_closing # ts) =
     (if name = ''option'' then construct (ns @ close_option cur) (Some (attributes, [])) ts
      else None)"
| "construct ns cur (EndTag name # ts) =
     (if name = ''option'' then construct (ns @ close_option cur) None ts else None)"

text \<open>The children that an assignment to \<^verbatim>\<open>innerHTML\<close> gives.\<close>

definition parse_fragment :: "string \<Rightarrow> node list option" where
  "parse_fragment markup =
     Option.bind (tokenize Data (normalize_newlines markup)) (construct [] None)"

definition fragment :: "string \<Rightarrow> node list" where
  "fragment markup = (case parse_fragment markup of None \<Rightarrow> [Unparsed markup] | Some ns \<Rightarrow> ns)"

subsection \<open>The document\<close>

text \<open>A reference to an element is its identifier; \<open>None\<close> is \<^verbatim>\<open>null\<close>.\<close>

definition getElementById :: "string \<Rightarrow> string option js" where
  "getElementById i s = (Inr (case document s i of None \<Rightarrow> None | Some el \<Rightarrow> Some i), s)"

text \<open>Reading and writing a property of what \<^verbatim>\<open>getElementById\<close> returned.\<close>

definition get_val :: "string option \<Rightarrow> string js" where
  "get_val r s =
     (case r of
        None \<Rightarrow> (Inl TypeError, s)
      | Some i \<Rightarrow> (case document s i of None \<Rightarrow> (Inl TypeError, s) | Some el \<Rightarrow> (Inr (val el), s)))"

definition update_element :: "string option \<Rightarrow> (element \<Rightarrow> element) \<Rightarrow> unit js" where
  "update_element r f s =
     (case r of
        None \<Rightarrow> (Inl TypeError, s)
      | Some i \<Rightarrow>
          (case document s i of
             None \<Rightarrow> (Inl TypeError, s)
           | Some el \<Rightarrow> (Inr (), s\<lparr>document := (document s)(i \<mapsto> f el)\<rparr>)))"

text \<open>
  An element gets new children, and the value that goes with them. \<open>append_child\<close> is
  \<^verbatim>\<open>appendChild\<close>.
\<close>

definition set_children :: "node list \<Rightarrow> element \<Rightarrow> element" where
  "set_children ns el = el\<lparr>children := ns, val := value_with_children el ns (val el)\<rparr>"

definition append_child :: "node \<Rightarrow> element \<Rightarrow> element" where
  "append_child n el = set_children (children el @ [n]) el"

text \<open>
  \<^verbatim>\<open>r.textContent = rhs\<close>, \<^verbatim>\<open>r.innerHTML = rhs\<close> and \<^verbatim>\<open>r.value = rhs\<close>, where evaluating
  \<open>rhs\<close> may throw. Assigning to \<^verbatim>\<open>textContent\<close> replaces the children by one text node,
  or by nothing when the string is empty; assigning to \<^verbatim>\<open>innerHTML\<close> replaces them by the
  nodes parsed from the string.
\<close>

definition text_nodes :: "string \<Rightarrow> node list" where
  "text_nodes str = (if str = [] then [] else [Text_Node str])"

definition set_textContent :: "string option \<Rightarrow> js_error + string \<Rightarrow> unit js" where
  "set_textContent r rhs =
     bind (lift rhs) (\<lambda>str. update_element r (set_children (text_nodes str)))"

definition set_innerHTML :: "string option \<Rightarrow> js_error + string \<Rightarrow> unit js" where
  "set_innerHTML r rhs =
     bind (lift rhs) (\<lambda>str. update_element r (set_children (fragment str)))"

definition set_val :: "string option \<Rightarrow> js_error + string \<Rightarrow> unit js" where
  "set_val r rhs =
     bind (lift rhs) (\<lambda>str.
       update_element r (\<lambda>el. el\<lparr>val := value_assigned el (children el) str\<rparr>))"

text \<open>
  The conversions that the document applies to a value assigned to a property:
  \<^verbatim>\<open>textContent\<close> takes null and undefined as the empty string, \<^verbatim>\<open>value\<close> only null.
\<close>

definition textContent_string :: "jsval \<Rightarrow> js_error + string" where
  "textContent_string v = (if v = Null \<or> v = Undefined then Inr [] else ToString v)"

definition value_string :: "jsval \<Rightarrow> js_error + string" where
  "value_string v = (if v = Null then Inr [] else ToString v)"

definition alert :: "string \<Rightarrow> unit js" where
  "alert msg s = (Inr (), s\<lparr>effects := effects s @ [Alert msg]\<rparr>)"

definition console_error :: "string \<Rightarrow> js_error \<Rightarrow> unit js" where
  "console_error msg e s = (Inr (), s\<lparr>effects := effects s @ [ConsoleError msg e]\<rparr>)"

text \<open>
  \<^verbatim>\<open>fetch(...)\<close> issues the request and returns a promise, here the way it will settle;
  \<^verbatim>\<open>await\<close> throws the error of a rejected promise.
\<close>

definition fetch :: "host \<Rightarrow> request \<Rightarrow> (js_error + response) js" where
  "fetch h req s = (Inr (fetch_result h req), s\<lparr>effects := effects s @ [Fetch req]\<rparr>)"

definition await :: "js_error + 'a \<Rightarrow> 'a js" where
  "await p = lift p"

text \<open>
  \<^verbatim>\<open>Promise.all([p, q])\<close>: fulfilled with both values when both promises are fulfilled,
  rejected when one is rejected. When both are rejected the error is the one of the promise
  that settles first: \<open>p\<close> when \<open>p_first\<close> holds.
\<close>

definition Promise_all :: "bool \<Rightarrow> js_error + 'a \<Rightarrow> js_error + 'b \<Rightarrow> js_error + 'a \<times> 'b" where
  "Promise_all p_first p q =
     (case p of
        Inl e \<Rightarrow> (case q of Inl e' \<Rightarrow> Inl (if p_first then e else e') | Inr y \<Rightarrow> Inl e)
      | Inr x \<Rightarrow> (case q of Inl e' \<Rightarrow> Inl e' | Inr y \<Rightarrow> Inr (x, y)))"

text \<open>A call of the library: recorded, and its position returned as the reference.\<close>

definition library :: "lib_call \<Rightarrow> nat js" where
  "library c s = (Inr (length (lib s)), s\<lparr>lib := lib s @ [c]\<rparr>)"

section \<open>The script\<close>

text \<open>
  \<^verbatim>\<open>
  async function loadDbEntries() {
      try {
          const response = await fetch('/api/entries');
          const entries = await response.json();
          const select = document.getElementById('db-entries');
          select.innerHTML = entries.map(entry =>
              `<option value="${entry.symbol}|${entry.date}">${entry.symbol} - ${entry.date}</option>`
          ).join('');
      } catch (error) {
          console.error('Error loading database entries:', error);
      }
  }
  \<close>
  \<^verbatim>\<open>entries.map\<close> is a function only when \<^verbatim>\<open>entries\<close> is an array.
\<close>

definition get_request :: "string \<Rightarrow> request" where
  "get_request u = \<lparr>http_method = ''GET'', url = u, headers = [], body = None\<rparr>"

definition dquote :: string where
  "dquote = [CHR 0x22]"

text \<open>The template literal, with the strings that the two expressions convert to.\<close>

definition option_html :: "string \<Rightarrow> string \<Rightarrow> string" where
  "option_html symbol date =
     ''<option value='' @ dquote @ symbol @ ''|'' @ date @ dquote @ ''>''
     @ symbol @ '' - '' @ date @ ''</option>''"

definition option_markup :: "jsval \<Rightarrow> js_error + string" where
  "option_markup entry =
     bindE (bindE (get_prop entry ''symbol'') ToString) (\<lambda>symbol.
     bindE (bindE (get_prop entry ''date'') ToString) (\<lambda>date.
     Inr (option_html symbol date)))"

definition array_map :: "(jsval \<Rightarrow> js_error + 'a) \<Rightarrow> jsval \<Rightarrow> js_error + 'a list" where
  "array_map f v = (case v of Arr vs \<Rightarrow> collect (map f vs) | _ \<Rightarrow> Inl TypeError)"

definition loadDbEntries :: "host \<Rightarrow> unit js" where
  "loadDbEntries h =
     try_catch
       (bind (fetch h (get_request ''/api/entries'')) (\<lambda>p.
        bind (await p) (\<lambda>response.
        bind (await (json response)) (\<lambda>entries.
        bind (getElementById ''db-entries'') (\<lambda>select.
        set_innerHTML select
          (bindE (array_map option_markup entries) (\<lambda>options. Inr (join [] options))))))))
       (\<lambda>error. console_error ''Error loading database entries:'' error)"

text \<open>
  \<^verbatim>\<open>
  function createChart(container) {
      if (chart) {
          container.innerHTML = '';
      }
      chart = LightweightCharts.createChart(container, {
          height: 600,
          layout: { background: { color: '#131722' }, textColor: '#d1d4dc' },
          grid: { vertLines: { color: '#1e222d' }, horzLines: { color: '#1e222d' } },
      });
      return chart;
  }
  \<close>
  The library makes an element for the chart and appends it to the container; on \<^verbatim>\<open>null\<close>
  it throws a TypeError.
\<close>

definition chart_options :: jsval where
  "chart_options = Obj
     [(''height'', Num (int_lit 600)),
      (''layout'', Obj
         [(''background'', Obj [(''color'', Str ''#131722'')]),
          (''textColor'', Str ''#d1d4dc'')]),
      (''grid'', Obj
         [(''vertLines'', Obj [(''color'', Str ''#1e222d'')]),
          (''horzLines'', Obj [(''color'', Str ''#1e222d'')])])]"

definition LightweightCharts_createChart :: "string option \<Rightarrow> jsval \<Rightarrow> nat js" where
  "LightweightCharts_createChart container opts =
     (case container of
        None \<Rightarrow> throw TypeError
      | Some i \<Rightarrow>
          bind (library (CreateChart i opts)) (\<lambda>c.
          bind (update_element container (append_child (Chart_Element c))) (\<lambda>_.
          return c)))"

definition createChart :: "string option \<Rightarrow> nat js" where
  "createChart container =
     bind (\<lambda>s. if chart s \<noteq> None then set_innerHTML container (Inr []) s else return () s) (\<lambda>_.
     bind (LightweightCharts_createChart container chart_options) (\<lambda>c.
     bind (\<lambda>s. (Inr (), s\<lparr>chart := Some c\<rparr>)) (\<lambda>_.
     return c)))"

text \<open>
  \<^verbatim>\<open>
  function updateStockInfo(info) {
      document.getElementById('company-name').textContent = info.name;
      document.getElementById('sector').textContent = info.sector;
      document.getElementById('industry').textContent = info.industry;
      document.getElementById('market-cap').textContent = formatMarketCap(info.market_cap);
      document.getElementById('pe-ratio').textContent = formatNumber(info.pe_ratio);
      document.getElementById('dividend-yield').textContent = formatPercentage(info.dividend_yield);
      document.getElementById('52w-high').textContent = formatPrice(info.fifty_two_week_high);
      document.getElementById('52w-low').textContent = formatPrice(info.fifty_two_week_low);
      document.getElementById('avg-volume').textContent = formatVolume(info.avg_volume);
  }
  \<close>
\<close>

definition assign_textContent :: "string \<Rightarrow> js_error + string \<Rightarrow> unit js" where
  "assign_textContent i rhs = bind (getElementById i) (\<lambda>r. set_textContent r rhs)"

definition updateStockInfo :: "host \<Rightarrow> jsval \<Rightarrow> unit js" where
  "updateStockInfo h info = block
     [assign_textContent ''company-name'' (bindE (get_prop info ''name'') textContent_string),
      assign_textContent ''sector'' (bindE (get_prop info ''sector'') textContent_string),
      assign_textContent ''industry'' (bindE (get_prop info ''industry'') textContent_string),
      assign_textContent ''market-cap'' (bindE (get_prop info ''market_cap'') formatMarketCap),
      assign_textContent ''pe-ratio'' (bindE (get_prop info ''pe_ratio'') formatNumber),
      assign_textContent ''dividend-yield''
        (bindE (get_prop info ''dividend_yield'') formatPercentage),
      assign_textContent ''52w-high'' (bindE (get_prop info ''fifty_two_week_high'') formatPrice),
      assign_textContent ''52w-low'' (bindE (get_prop info ''fifty_two_week_low'') formatPrice),
      assign_textContent ''avg-volume''
        (bindE (get_prop info ''avg_volume'') (formatVolume (toLocaleString h)))]"

text \<open>
  \<^verbatim>\<open>
  function clearStockInfo() {
      const elements = ['company-name', 'sector', 'industry', 'market-cap',
                       'pe-ratio', 'dividend-yield', '52w-high', '52w-low', 'avg-volume'];
      elements.forEach(id => document.getElementById(id).textContent = '-');
  }
  \<close>
\<close>

definition elements :: "string list" where
  "elements = [''company-name'', ''sector'', ''industry'', ''market-cap'',
               ''pe-ratio'', ''dividend-yield'', ''52w-high'', ''52w-low'', ''avg-volume'']"

definition clearStockInfo :: "unit js" where
  "clearStockInfo = block (map (\<lambda>i. assign_textContent i (Inr ''-'')) elements)"

text \<open>
  \<^verbatim>\<open>
  function renderChart(data, symbol) {
      const container = document.getElementById('chart-container');
      const chart = createChart(container);
      const candlestickSeries = chart.addCandlestickSeries({
          upColor: '#26a69a', downColor: '#ef5350', borderVisible: false,
          wickUpColor: '#26a69a', wickDownColor: '#ef5350',
      });
      candlestickSeries.setData(data.candlestick);
      const volumeSeries = chart.addHistogramSeries({
          color: '#26a69a',
          priceFormat: { type: 'volume' },
          priceScaleId: 'volume',
          scaleMargins: { top: 0.8, bottom: 0 },
      });
      volumeSeries.setData(data.volume);
      candlestickSeries.setMarkers([
          { time: data.purchase_timestamp, position: 'belowBar', color: '#ffeb3b',
            shape: 'arrowUp', text: 'BUY' }
      ]);
      chart.timeScale().fitContent();
  }
  \<close>
\<close>

definition candlestick_options :: jsval where
  "candlestick_options = Obj
     [(''upColor'', Str ''#26a69a''),
      (''downColor'', Str ''#ef5350''),
      (''borderVisible'', Bool False),
      (''wickUpColor'', Str ''#26a69a''),
      (''wickDownColor'', Str ''#ef5350'')]"

definition volume_options :: jsval where
  "volume_options = Obj
     [(''color'', Str ''#26a69a''),
      (''priceFormat'', Obj [(''type'', Str ''volume'')]),
      (''priceScaleId'', Str ''volume''),
      (''scaleMargins'', Obj [(''top'', Num (dec_lit 8 10)), (''bottom'', Num (int_lit 0))])]"

definition purchase_marker :: "jsval \<Rightarrow> jsval" where
  "purchase_marker time = Obj
     [(''time'', time),
      (''position'', Str ''belowBar''),
      (''color'', Str ''#ffeb3b''),
      (''shape'', Str ''arrowUp''),
      (''text'', Str ''BUY'')]"

definition renderChart :: "jsval \<Rightarrow> string \<Rightarrow> unit js" where
  "renderChart data symbol =
     bind (getElementById ''chart-container'') (\<lambda>container.
     bind (createChart container) (\<lambda>chart.
     bind (library (AddCandlestickSeries chart candlestick_options)) (\<lambda>candlestickSeries.
     bind (lift (get_prop data ''candlestick'')) (\<lambda>candlestick.
     bind (library (SetData candlestickSeries candlestick)) (\<lambda>_.
     bind (library (AddHistogramSeries chart volume_options)) (\<lambda>volumeSeries.
     bind (lift (get_prop data ''volume'')) (\<lambda>volume.
     bind (library (SetData volumeSeries volume)) (\<lambda>_.
     bind (lift (get_prop data ''purchase_timestamp'')) (\<lambda>time.
     bind (library (SetMarkers candlestickSeries (Arr [purchase_marker time]))) (\<lambda>_.
     bind (library (FitContent chart)) (\<lambda>_.
     return ())))))))))))"

text \<open>
  \<^verbatim>\<open>
  async function showChart() {
      const symbol = document.getElementById('symbol').value;
      const purchaseDate = document.getElementById('purchase-date').value;
      if (!symbol || !purchaseDate) {
          alert('Please enter both symbol and date');
          return;
      }
      try {
          const [chartResponse, infoResponse] = await Promise.all([
              fetch('/api/chart-data', {
                  method: 'POST',
                  headers: { 'Content-Type': 'application/json' },
                  body: JSON.stringify({ symbol: symbol, purchase_date: purchaseDate }),
              }),
              fetch(`/api/stock-info/${symbol}`)
          ]);
          const chartData = await chartResponse.json();
          const infoData = await infoResponse.json();
          renderChart(chartData, symbol);
          updateStockInfo(infoData);
      } catch (error) {
          console.error('Error loading data:', error);
          alert('Error loading data');
          clearStockInfo();
      }
  }
  \<close>
\<close>

definition chart_data_request :: "string \<Rightarrow> string \<Rightarrow> request" where
  "chart_data_request symbol purchaseDate =
     \<lparr>http_method = ''POST'',
      url = ''/api/chart-data'',
      headers = [(''Content-Type'', ''application/json'')],
      body = Some (Obj [(''symbol'', Str symbol), (''purchase_date'', Str purchaseDate)])\<rparr>"

definition stock_info_request :: "string \<Rightarrow> request" where
  "stock_info_request symbol = get_request (''/api/stock-info/'' @ symbol)"

definition showChart_catch :: "js_error \<Rightarrow> unit js" where
  "showChart_catch error = block
     [console_error ''Error loading data:'' error,
      alert ''Error loading data'',
      clearStockInfo]"

definition showChart :: "host \<Rightarrow> unit js" where
  "showChart h =
     bind (bind (getElementById ''symbol'') get_val) (\<lambda>symbol.
     bind (bind (getElementById ''purchase-date'') get_val) (\<lambda>purchaseDate.
     if symbol = [] \<or> purchaseDate = [] then alert ''Please enter both symbol and date''
     else
       try_catch
         (bind (fetch h (chart_data_request symbol purchaseDate)) (\<lambda>p.
          bind (fetch h (stock_info_request symbol)) (\<lambda>q.
          bind (await (Promise_all (first_settles_first h) p q)) (\<lambda>(chartResponse, infoResponse).
          bind (await (json chartResponse)) (\<lambda>chartData.
          bind (await (json infoResponse)) (\<lambda>infoData.
          block [renderChart chartData symbol, updateStockInfo h infoData]))))))
         showChart_catch))"

text \<open>
  \<^verbatim>\<open>
  function showDbChart() {
      const select = document.getElementById('db-entries');
      const [symbol, date] = select.value.split('|');
      document.getElementById('symbol').value = symbol;
      document.getElementById('purchase-date').value = date;
      showChart();
  }
  \<close>
  \<^verbatim>\<open>split\<close> gives at least one string; a variable of the pattern beyond the end of the
  array is \<^verbatim>\<open>undefined\<close>. The promise that \<^verbatim>\<open>showChart\<close> returns is dropped.
\<close>

fun split :: "char \<Rightarrow> string \<Rightarrow> string list" where
  "split sep [] = [[]]"
| "split sep (c # cs) =
     (if c = sep then [] # split sep cs
      else (case split sep cs of [] \<Rightarrow> [[c]] | w # ws \<Rightarrow> (c # w) # ws))"

fun element_at :: "string list \<Rightarrow> nat \<Rightarrow> jsval" where
  "element_at [] n = Undefined"
| "element_at (x # xs) 0 = Str x"
| "element_at (x # xs) (Suc n) = element_at xs n"

definition showDbChart :: "host \<Rightarrow> unit js" where
  "showDbChart h =
     bind (getElementById ''db-entries'') (\<lambda>select.
     bind (get_val select) (\<lambda>v.
     let parts = split CHR ''|'' v; symbol = element_at parts 0; date = element_at parts 1 in
     bind (bind (getElementById ''symbol'') (\<lambda>r. set_val r (value_string symbol))) (\<lambda>_.
     bind (bind (getElementById ''purchase-date'') (\<lambda>r. set_val r (value_string date))) (\<lambda>_.
     (\<lambda>s. (Inr (), snd (showChart h s)))))))"

section \<open>Notions used to state the properties\<close>

text \<open>
  How the two requests of \<^verbatim>\<open>showChart\<close> end together: with the two parsed values when
  both are fulfilled and both bodies parse, with an error when a request is rejected or a
  body does not parse, whatever becomes of the other request. The error is that of the
  request rejected first, or else of the first body that does not parse.
\<close>

definition requests_outcome :: "host \<Rightarrow> string \<Rightarrow> string \<Rightarrow> js_error + jsval \<times> jsval" where
  "requests_outcome h symbol purchaseDate =
     bindE (Promise_all (first_settles_first h)
              (fetch_result h (chart_data_request symbol purchaseDate))
              (fetch_result h (stock_info_request symbol)))
       (\<lambda>(chartResponse, infoResponse).
          bindE (json chartResponse) (\<lambda>chartData.
          bindE (json infoResponse) (\<lambda>infoData. Inr (chartData, infoData))))"

text \<open>The document after the nine fields of the info panel were set to \<^verbatim>\<open>-\<close>.\<close>

definition cleared :: "(string \<rightharpoonup> element) \<Rightarrow> (string \<rightharpoonup> element)" where
  "cleared d =
     (\<lambda>i. if i \<in> set elements then map_option (set_children [Text_Node ''-'']) (d i) else d i)"

text \<open>What the nine fields of the info panel show.\<close>

definition info_panel :: "state \<Rightarrow> node list option list" where
  "info_panel s = map (\<lambda>i. map_option children (document s i)) elements"

text \<open>
  The characters that end an attribute value in double quotes or a text, or that the parser
  changes: the double quote, the ampersand, the less-than sign, NUL and carriage return. A
  string is plain when it has none of them.
\<close>

definition plain :: "string \<Rightarrow> bool" where
  "plain str = list_all (\<lambda>c. c \<notin> set [CHR 0x22, CHR ''&'', CHR ''<'', CHR 0x00, CHR 0x0D]) str"

text \<open>
  Three kinds of element. A block has no value of its own: what is assigned to \<^verbatim>\<open>value\<close>
  is kept as it is. A text field strips the line breaks from what is assigned to it. A
  drop-down list has the value of its selected option: the last option with the attribute
  \<^verbatim>\<open>selected\<close>, or else the first that is not disabled, once its children were replaced;
  the option with the assigned value, if there is one, after an assignment. The value of an
  option is its attribute \<^verbatim>\<open>value\<close>, or else its text with the white space stripped and
  collapsed. Of the children only the \<^verbatim>\<open>option\<close> elements count.
\<close>

definition blank :: element where
  "blank = \<lparr>val = [], children = [],
            value_assigned = (\<lambda>ns str. str), value_with_children = (\<lambda>ns v. v)\<rparr>"

definition strip_newlines :: "string \<Rightarrow> string" where
  "strip_newlines str = filter (\<lambda>c. c \<noteq> CHR 0x0A \<and> c \<noteq> CHR 0x0D) str"

definition text_field :: "string \<Rightarrow> element" where
  "text_field v = \<lparr>val = v, children = [],
                   value_assigned = (\<lambda>ns. strip_newlines), value_with_children = (\<lambda>ns v. v)\<rparr>"

fun is_option :: "node \<Rightarrow> bool" where
  "is_option (Option_Element attributes t) = True"
| "is_option n = False"

fun has_attribute :: "string \<Rightarrow> node \<Rightarrow> bool" where
  "has_attribute name (Option_Element attributes t) = (name \<in> set (map fst attributes))"
| "has_attribute name n = False"

definition strip_and_collapse :: "string \<Rightarrow> string" where
  "strip_and_collapse t =
     join '' '' (filter (\<lambda>w. w \<noteq> [])
       (split CHR '' ''
          (map (\<lambda>c. if c \<in> set [CHR 0x09, CHR 0x0A, CHR 0x0C, CHR 0x0D] then CHR '' '' else c) t)))"

fun option_value :: "node \<Rightarrow> string" where
  "option_value (Option_Element attributes t) =
     (case map_of attributes ''value'' of None \<Rightarrow> strip_and_collapse t | Some v \<Rightarrow> v)"
| "option_value n = []"

definition selected_value :: "node list \<Rightarrow> string" where
  "selected_value ns =
     (case rev (filter (has_attribute ''selected'') ns) of
        n # earlier \<Rightarrow> option_value n
      | [] \<Rightarrow>
          (case filter (\<lambda>n. is_option n \<and> \<not> has_attribute ''disabled'' n) ns of
             [] \<Rightarrow> []
           | n # later \<Rightarrow> option_value n))"

definition drop_down_list :: "node list \<Rightarrow> string \<Rightarrow> element" where
  "drop_down_list ns v =
     \<lparr>val = v, children = ns,
      value_assigned =
        (\<lambda>ns str. if str \<in> set (map option_value (filter is_option ns)) then str else []),
      value_with_children = (\<lambda>ns v. selected_value ns)\<rparr>"

text \<open>
  A page with the elements that the script looks up: the drop-down list, with the option
  \<open>selected\<close> when that is not empty, two text fields, and blocks for the chart and for
  the info panel. And a browser that answers the request for the chart data with \<open>r\<close> and
  every other request with \<open>q\<close>.
\<close>

definition example_page :: "string \<Rightarrow> string \<Rightarrow> string \<Rightarrow> state" where
  "example_page selected symbol date =
     \<lparr>document = map_of
        ([(''db-entries'',
            drop_down_list
              (if selected = [] then [] else [Option_Element [(''value'', selected)] selected])
              selected),
          (''symbol'', text_field symbol),
          (''purchase-date'', text_field date),
          (''chart-container'', blank)]
         @ map (\<lambda>i. (i, blank)) elements),
      chart = None,
      lib = [],
      effects = []\<rparr>"

definition example_host :: "js_error + response \<Rightarrow> js_error + response \<Rightarrow> host" where
  "example_host r q =
     \<lparr>fetch_result = (\<lambda>req. if url req = ''/api/chart-data'' then r else q),
      first_settles_first = True,
      toLocaleString = (\<lambda>v. Inr ''1,234,567'')\<rparr>"

definition example_info :: jsval where
  "example_info = Obj
     [(''name'', Str ''Acme Corp''),
      (''sector'', Str ''Technology''),
      (''industry'', Str ''Software''),
      (''market_cap'', Num (int_lit 2500000000)),
      (''pe_ratio'', Str ''N/A''),
      (''dividend_yield'', Num (dec_lit 523 10000)),
      (''fifty_two_week_high'', Num (dec_lit 1425 10)),
      (''fifty_two_week_low'', Null),
      (''avg_volume'', Num (int_lit 1234567))]"

definition example_chart_data :: jsval where
  "example_chart_data = Obj
     [(''candlestick'', Arr
         [Obj [(''time'', Num (int_lit 1704412800)), (''open'', Num (int_lit 10)),
               (''high'', Num (int_lit 12)), (''low'', Num (int_lit 9)),
               (''close'', Num (int_lit 11))]]),
      (''volume'', Arr
         [Obj [(''time'', Num (int_lit 1704412800)), (''value'', Num (int_lit 1000))]]),
      (''purchase_timestamp'', Num (int_lit 1704412800))]"

section \<open>Numbers and their digits\<close>

lemma billion_eq: "billion = Finite False 8388608000000000 (- 23)"
  unfolding billion_def by code_simp

lemma million_eq: "million = Finite False 8589934592000000 (- 33)"
  unfolding million_def by code_simp

lemma zero_eq: "int_lit 0 = Finite False 0 (- 1074)"
  by code_simp

lemma shl_zero [simp]: "shl 0 k = 0"
  by (simp add: shl_def)

lemma shl_pos: "0 < x \<Longrightarrow> 0 < shl x k"
  by (simp add: shl_def)

lemma ratio_zero: "ratio 0 e = (0, shl 1 (- e))"
  by (simp add: ratio_def)

subsection \<open>Rounding gives a nearest double\<close>

text \<open>
  \<open>round_ratio\<close> returns an infinity or a double \<open>m * 2 ^ e\<close> in its one representation, at
  most half a unit in the last place away from \<open>a / b\<close>.
\<close>

lemma shl_real: "real_of_int (shl x k) = real_of_int x * (if 0 < k then 2 powi k else 1)"
  by (simp add: shl_def power_int_def)

lemma shl_quotient:
  assumes "0 < b"
  shows "real_of_int (shl a (- e)) / real_of_int (shl b e) = real_of_int a / real_of_int b / 2 powi e"
proof (cases "0 < e")
  case True
  then show ?thesis by (simp add: shl_real)
next
  case False
  note nonpos = this
  show ?thesis
  proof (cases "e = 0")
    case True
    then show ?thesis by (simp add: shl_real)
  next
    case False
    with nonpos have "0 < - e" by simp
    then show ?thesis
      using nonpos by (simp add: shl_real power_int_minus field_simps)
  qed
qed

lemma shl_le_iff:
  assumes "0 < b"
  shows "shl b d \<le> shl a (- d) \<longleftrightarrow> 2 powi d \<le> real_of_int a / real_of_int b"
proof -
  have pos: "0 < real_of_int (shl b d)"
    using assms by (simp add: shl_pos)
  have "shl b d \<le> shl a (- d) \<longleftrightarrow> real_of_int (shl b d) \<le> real_of_int (shl a (- d))"
    by simp
  also have "\<dots> \<longleftrightarrow> 1 \<le> real_of_int (shl a (- d)) / real_of_int (shl b d)"
    using pos by (simp add: field_simps)
  also have "\<dots> \<longleftrightarrow> 1 \<le> real_of_int a / real_of_int b / 2 powi d"
    by (simp add: shl_quotient[OF assms])
  also have "\<dots> \<longleftrightarrow> real_of_int b * 2 powi d \<le> real_of_int a"
  proof -
    have "0 < real_of_int b * 2 powi d" using assms by simp
    then show ?thesis by (simp add: pos_le_divide_eq)
  qed
  also have "\<dots> \<longleftrightarrow> 2 powi d \<le> real_of_int a / real_of_int b"
    using assms by (simp add: pos_le_divide_eq mult.commute)
  finally show ?thesis .
qed

lemma bitlen_real_bounds:
  assumes "0 < x"
  shows "2 powi (bitlen x - 1) \<le> real_of_int x" "real_of_int x < 2 powi (bitlen x)"
proof -
  from bitlen_bounds[OF assms] have lo: "2 ^ nat (bitlen x - 1) \<le> x" and hi: "x < 2 ^ nat (bitlen x)"
    by simp_all
  have b1: "1 \<le> bitlen x" using assms by (simp add: bitlen_alt_def)
  from lo have "real_of_int (2 ^ nat (bitlen x - 1)) \<le> real_of_int x"
    by (rule of_int_le_iff[THEN iffD2])
  then show "2 powi (bitlen x - 1) \<le> real_of_int x"
    using b1 by (simp add: power_int_def)
  from hi have "real_of_int x < real_of_int (2 ^ nat (bitlen x))"
    by (rule of_int_less_iff[THEN iffD2])
  then show "real_of_int x < 2 powi (bitlen x)"
    using b1 by (simp add: power_int_def)
qed


lemma round_half_even_div_near:
  assumes "0 < d"
  shows "2 * \<bar>round_half_even_div n d * d - n\<bar> \<le> d"
proof -
  have n: "n = n div d * d + n mod d" by simp
  have r: "0 \<le> n mod d" "n mod d < d" using assms by simp_all
  have up: "(n div d + 1) * d - n = d - n mod d"
    by (simp add: algebra_simps)
  have down: "n div d * d - n = - (n mod d)"
    using n by linarith
  show ?thesis
    unfolding round_half_even_div_def Let_def
    using r by (auto simp: up down)
qed

lemma round_half_even_div_real:
  assumes "0 < d"
  shows "\<bar>real_of_int (round_half_even_div n d) - real_of_int n / real_of_int d\<bar> \<le> 1 / 2"
proof -
  let ?m = "round_half_even_div n d"
  from round_half_even_div_near[OF assms, of n]
  have "real_of_int (2 * \<bar>?m * d - n\<bar>) \<le> real_of_int d"
    by (rule of_int_le_iff[THEN iffD2])
  then have "2 * \<bar>real_of_int ?m * real_of_int d - real_of_int n\<bar> \<le> real_of_int d"
    by simp
  moreover have "real_of_int ?m - real_of_int n / real_of_int d
      = (real_of_int ?m * real_of_int d - real_of_int n) / real_of_int d"
    using assms by (simp add: field_simps)
  ultimately show ?thesis
    using assms by (simp add: abs_divide field_simps)
qed


lemma powi_le: "m \<le> n \<Longrightarrow> (2::real) powi m \<le> 2 powi n"
  by (rule power_int_increasing) simp_all

lemma ratio_exponent:
  assumes "0 < a" and "0 < b"
  defines "d \<equiv> bitlen a - bitlen b"
  defines "fl \<equiv> (if shl b d \<le> shl a (- d) then d else d - 1)"
  shows "2 powi fl \<le> real_of_int a / real_of_int b"
    and "real_of_int a / real_of_int b < 2 powi (fl + 1)"
proof -
  let ?r = "real_of_int a / real_of_int b"
  note A = bitlen_real_bounds[OF assms(1)] and B = bitlen_real_bounds[OF assms(2)]
  have bpos: "0 < real_of_int b" using assms(2) by simp
  have apos: "0 < real_of_int a" using assms(1) by simp
  have e1: "(2::real) powi (bitlen a) / 2 powi (bitlen b - 1) = 2 powi (d + 1)"
  proof -
    have "(2::real) powi (bitlen a - (bitlen b - 1)) = 2 powi bitlen a / 2 powi (bitlen b - 1)"
      by (rule power_int_diff) simp
    moreover have "bitlen a - (bitlen b - 1) = d + 1"
      by (simp add: d_def)
    ultimately show ?thesis by metis
  qed
  have e2: "(2::real) powi (bitlen a - 1) / 2 powi (bitlen b) = 2 powi (d - 1)"
  proof -
    have "(2::real) powi (bitlen a - 1 - bitlen b) = 2 powi (bitlen a - 1) / 2 powi bitlen b"
      by (rule power_int_diff) simp
    moreover have "bitlen a - 1 - bitlen b = d - 1"
      by (simp add: d_def)
    ultimately show ?thesis by metis
  qed
  have "?r < 2 powi (bitlen a) / 2 powi (bitlen b - 1)"
    using A(2) B(1) bpos apos by (intro frac_less) simp_all
  then have upper: "?r < 2 powi (d + 1)"
    unfolding e1 .
  have "2 powi (bitlen a - 1) / 2 powi (bitlen b) < ?r"
    using A(1) B(2) bpos apos by (intro frac_less2) simp_all
  then have lower: "2 powi (d - 1) < ?r"
    unfolding e2 .
  show "2 powi fl \<le> ?r"
    using lower by (auto simp: fl_def shl_le_iff[OF assms(2)])
  show "?r < 2 powi (fl + 1)"
    using upper by (auto simp: fl_def shl_le_iff[OF assms(2)] not_le)
qed


lemma round_ratio_cases:
  assumes "0 < a" and "0 < b"
  obtains (overflow) "round_ratio neg a b = Infinity neg"
  | (finite) m e where "round_ratio neg a b = Finite neg m e"
      "0 \<le> m" "m < 2 ^ 53" "- 1074 \<le> e" "e \<le> 971" "2 ^ 52 \<le> m \<or> e = - 1074"
      "\<bar>real_of_int m * 2 powi e - real_of_int a / real_of_int b\<bar> \<le> 2 powi e / 2"
proof -
  define r where "r = real_of_int a / real_of_int b"
  define d where "d = bitlen a - bitlen b"
  define fl where "fl = (if shl b d \<le> shl a (- d) then d else d - 1)"
  define e where "e = max (fl - 52) (- 1074)"
  define m where "m = round_half_even_div (shl a (- e)) (shl b e)"
  define e' where "e' = (if m = 2 ^ 53 then e + 1 else e)"
  define m' where "m' = (if m = 2 ^ 53 then 2 ^ 52 else m)"
  define q where "q = r / 2 powi e"
  have nonzero: "a \<noteq> 0" using assms(1) by simp
  have unfold: "round_ratio neg a b = (if 971 < e' then Infinity neg else Finite neg m' e')"
    unfolding round_ratio_def Let_def d_def fl_def e_def m_def e'_def m'_def
    using nonzero by (simp only: if_False)
  have lower: "2 powi fl \<le> r"
    unfolding fl_def d_def r_def by (rule ratio_exponent(1)[OF assms])
  have upper: "r < 2 powi (fl + 1)"
    unfolding fl_def d_def r_def by (rule ratio_exponent(2)[OF assms])
  have rpos: "0 < r" using assms by (simp add: r_def)
  have epos: "(0::real) < 2 powi e" by simp
  have "\<bar>real_of_int m - real_of_int (shl a (- e)) / real_of_int (shl b e)\<bar> \<le> 1 / 2"
    unfolding m_def by (rule round_half_even_div_real) (rule shl_pos[OF assms(2)])
  then have near: "\<bar>real_of_int m - q\<bar> \<le> 1 / 2"
    unfolding shl_quotient[OF assms(2)] q_def r_def .
  have e_lo: "fl - 52 \<le> e" "- 1074 \<le> e"
    by (simp_all add: e_def)
  have "2 powi (fl + 1) \<le> (2::real) powi (e + 53)"
    using e_lo(1) by (intro powi_le) simp
  also have "\<dots> = 2 powi e * 2 powi 53"
    by (rule power_int_add) simp
  finally have "r < 2 powi e * 2 powi 53"
    using upper by simp
  then have q_hi: "q < 2 ^ 53"
    unfolding q_def using epos by (simp add: pos_divide_less_eq mult.commute)
  have q_lo: "0 < q"
    unfolding q_def using rpos by simp
  have m_hi: "m \<le> 2 ^ 53"
  proof -
    have "real_of_int m < 2 ^ 53 + 1" using near q_hi by linarith
    then have "real_of_int m < real_of_int (2 ^ 53 + 1)" by simp
    then have "m < 2 ^ 53 + 1" by (rule of_int_less_iff[THEN iffD1])
    then show ?thesis by simp
  qed
  have m_lo: "0 \<le> m"
  proof -
    have "- 1 < real_of_int m" using near q_lo by linarith
    then have "real_of_int (- 1) < real_of_int m" by simp
    then have "- 1 < m" by (rule of_int_less_iff[THEN iffD1])
    then show ?thesis by simp
  qed
  have normal: "2 ^ 52 \<le> m" if "e = fl - 52"
  proof -
    have "(2::real) powi (e + 52) = 2 powi e * 2 powi 52"
      by (rule power_int_add) simp
    with lower that have "2 powi e * 2 powi 52 \<le> r" by simp
    then have "2 ^ 52 \<le> q"
      unfolding q_def using epos by (simp add: pos_le_divide_eq mult.commute)
    with near have "2 ^ 52 - 1 < real_of_int m" by linarith
    then have "real_of_int (2 ^ 52 - 1) < real_of_int m" by simp
    then have "2 ^ 52 - 1 < m" by (rule of_int_less_iff[THEN iffD1])
    then show ?thesis by simp
  qed
  have shape: "2 ^ 52 \<le> m \<or> e = - 1074"
    using normal by (auto simp: e_def max_def)
  have same: "real_of_int m' * 2 powi e' = real_of_int m * 2 powi e"
  proof (cases "m = 2 ^ 53")
    case True
    have "(2::real) powi (e + 1) = 2 powi e * 2"
      by (simp add: power_int_add)
    with True show ?thesis by (simp add: m'_def e'_def)
  next
    case False
    then show ?thesis by (simp add: m'_def e'_def)
  qed
  have err: "\<bar>real_of_int m' * 2 powi e' - r\<bar> \<le> 2 powi e' / 2"
  proof -
    have "real_of_int m * 2 powi e - r = (real_of_int m - q) * 2 powi e"
      unfolding q_def using epos by (simp add: field_simps)
    then have "\<bar>real_of_int m * 2 powi e - r\<bar> = \<bar>real_of_int m - q\<bar> * 2 powi e"
      using epos by (simp add: abs_mult)
    also have "\<dots> \<le> 1 / 2 * 2 powi e"
      using near epos by (intro mult_right_mono) simp_all
    also have "\<dots> \<le> 2 powi e' / 2"
      using powi_le[of e e'] by (simp add: e'_def)
    finally show ?thesis by (simp add: same)
  qed
  show ?thesis
  proof (cases "971 < e'")
    case True
    then show ?thesis using overflow unfold by simp
  next
    case False
    have "0 \<le> m'" "m' < 2 ^ 53" "- 1074 \<le> e'" "e' \<le> 971" "2 ^ 52 \<le> m' \<or> e' = - 1074"
      using False m_lo m_hi e_lo(2) shape by (auto simp: m'_def e'_def)
    with finite[of m' e'] unfold False err show ?thesis by (simp add: r_def)
  qed
qed

theorem round_ratio_double:
  assumes "0 \<le> a" and "0 < b"
  shows "is_double (round_ratio neg a b)"
proof (cases "a = 0")
  case True
  then show ?thesis by (simp add: round_ratio_def)
next
  case False
  with assms have "0 < a" by simp
  then show ?thesis
    by (rule round_ratio_cases[OF _ assms(2), where neg = neg]) simp_all
qed

subsection \<open>The operations stay within the doubles\<close>

text \<open>
  Literals, products, quotients and the Numbers read from Strings are finite doubles, infinities
  or NaN: the arithmetic of the model never leaves the values a JavaScript Number can take.
\<close>

lemma shl_nonneg: "0 \<le> x \<Longrightarrow> 0 \<le> shl x k"
  by (simp add: shl_def)

lemma int_lit_double: "is_double (int_lit n)"
  unfolding int_lit_def by (rule round_ratio_double) simp_all

lemma dec_lit_double: "0 \<le> a \<Longrightarrow> 0 < b \<Longrightarrow> is_double (dec_lit a b)"
  unfolding dec_lit_def by (rule round_ratio_double)

lemma num_multiply_double:
  assumes "is_double x" and "is_double y"
  shows "is_double (num_multiply x y)"
proof (cases x)
  case (Finite a m e)
  note x = this
  show ?thesis
  proof (cases y)
    case (Finite b n f)
    have "is_double (round_ratio (a \<noteq> b) (shl (m * n) (e + f)) (shl 1 (- (e + f))))"
      using assms x Finite by (intro round_ratio_double shl_nonneg shl_pos) simp_all
    then show ?thesis using x Finite by simp
  qed (use x in simp_all)
next
  case NaN
  then show ?thesis by simp
next
  case (Infinity a)
  then show ?thesis by (cases y) simp_all
qed

lemma num_divide_double:
  assumes "is_double x" and "is_double y"
  shows "is_double (num_divide x y)"
proof (cases x)
  case (Finite a m e)
  note x = this
  show ?thesis
  proof (cases y)
    case (Finite b n f)
    show ?thesis
    proof (cases "n = 0")
      case True
      then show ?thesis using x Finite by simp
    next
      case False
      with assms(2) Finite have "0 < n" by simp
      then have "is_double (round_ratio (a \<noteq> b) (shl m (e - f)) (shl n (f - e)))"
        using assms x by (intro round_ratio_double shl_nonneg shl_pos) simp_all
      then show ?thesis using x Finite False by simp
    qed
  qed (use x in simp_all)
next
  case NaN
  then show ?thesis by simp
next
  case (Infinity a)
  then show ?thesis by (cases y) simp_all
qed

lemma digit_value_nonneg: "digit_value radix c = Some v \<Longrightarrow> 0 \<le> v"
  by (auto simp: digit_value_def Let_def split: if_splits)

lemma digits_value_nonneg:
  "0 \<le> radix \<Longrightarrow> 0 \<le> acc \<Longrightarrow> digits_value radix acc cs = Some v \<Longrightarrow> 0 \<le> v"
proof (induction cs arbitrary: acc)
  case Nil
  then show ?case by simp
next
  case (Cons c cs)
  from Cons.prems(3) obtain w where w: "digit_value radix c = Some w"
    and rest: "digits_value radix (acc * radix + w) cs = Some v"
    by (auto split: option.splits)
  from digit_value_nonneg[OF w] Cons.prems(1,2) have "0 \<le> acc * radix + w"
    by simp
  from Cons.IH[OF Cons.prems(1) this rest] show ?case .
qed

lemma scaled_double:
  "0 \<le> v \<Longrightarrow> is_double (case scale10 (v, 1) k of (a, b) \<Rightarrow> round_ratio neg a b)"
  by (simp add: round_ratio_double)

lemma decimal_value_double: "is_double (decimal_value neg ip fp ep)"
proof (cases "digits_value 10 0 (ip @ fp)")
  case None
  then show ?thesis by (simp add: decimal_value_def)
next
  case (Some v)
  then have "0 \<le> v" by (rule digits_value_nonneg[rotated 2]) simp_all
  then show ?thesis
    using Some by (cases "exponent_value ep") (simp_all add: decimal_value_def round_ratio_double)
qed

lemma unsigned_decimal_double: "is_double (unsigned_decimal neg s)"
  by (simp add: unsigned_decimal_def Let_def decimal_value_double)

lemma radix_prefix_nonneg: "radix_prefix t = Some r \<Longrightarrow> 0 \<le> r"
  by (auto simp: radix_prefix_def split: list.splits if_splits)

lemma integer_value_double:
  assumes "integer_value r t = Some v" and "0 \<le> r"
  shows "is_double (round_ratio False v 1)"
proof -
  from assms(1) have "digits_value r 0 t = Some v"
    by (simp add: integer_value_def split: if_splits)
  then have "0 \<le> v" by (rule digits_value_nonneg[rotated 2]) (use assms(2) in simp_all)
  then show ?thesis by (rule round_ratio_double) simp
qed

lemma StringToNumber_double: "is_double (StringToNumber s)"
proof (cases "trim s = []")
  case True
  then show ?thesis by (simp add: StringToNumber_def)
next
  case False
  show ?thesis
  proof (cases "radix_prefix (trim s)")
    case None
    then show ?thesis
      using False by (simp add: StringToNumber_def Let_def unsigned_decimal_double)
  next
    case (Some r)
    show ?thesis
    proof (cases "integer_value r (drop 2 (trim s))")
      case None
      then show ?thesis using False Some by (simp add: StringToNumber_def)
    next
      case v: (Some v)
      from integer_value_double[OF v radix_prefix_nonneg[OF Some]]
      show ?thesis using False Some v by (simp add: StringToNumber_def)
    qed
  qed
qed

subsection \<open>Known values\<close>

text \<open>
  Some values that every engine gives: \<^verbatim>\<open>0.1\<close> as a double, \<^verbatim>\<open>0.1 * 3\<close>,
  \<^verbatim>\<open>(1.005).toFixed(2)\<close>, where the double lies below the decimal, \<^verbatim>\<open>(8.345).toFixed(2)\<close>,
  where it lies above, the tie \<^verbatim>\<open>(0.125).toFixed(2)\<close>, a negative number that rounds to
  zero, and the exponent notation of small and large numbers.
\<close>

lemma known_doubles:
  "dec_lit 1 10 = Finite False 7205759403792794 (- 56)"
  "num_multiply (dec_lit 1 10) (int_lit 3) = Finite False 5404319552844596 (- 54)"
  "num_divide (int_lit 1) (int_lit 0) = Infinity False"
  "num_divide (int_lit 0) (int_lit 0) = NaN"
  by code_simp+

lemma known_toFixed:
  "toFixed 2 (dec_lit 1005 1000) = ''1.00''"
  "toFixed 2 (dec_lit 8345 1000) = ''8.35''"
  "toFixed 2 (dec_lit 1 8) = ''0.13''"
  "toFixed 2 (Finite True 4722366482869645 (- 62)) = ''-0.00''"
  by code_simp+

lemma known_toString:
  "Number_toString (dec_lit 1 10000000) = ''1e-7''"
  "Number_toString (int_lit (10 ^ 21)) = ''1e+21''"
  by code_simp+

lemma known_StringToNumber:
  "StringToNumber '' 12.5e1 '' = int_lit 125"
  "StringToNumber ''0x1F'' = int_lit 31"
  "StringToNumber ''12px'' = NaN"
  by code_simp+

text \<open>A falsy value converts to a zero or to NaN.\<close>

lemma falsy_number:
  assumes "\<not> ToBoolean v" and "ToNumber v = Inr x"
  shows "x = NaN \<or> (\<exists>neg e. x = Finite neg 0 e)"
proof (cases v)
  case (Num n)
  with assms show ?thesis by (cases n) auto
next
  case (Str str)
  with assms show ?thesis by (auto simp: StringToNumber_def trim_def)
qed (use assms in auto)

lemma ge_billion_truthy:
  assumes "ToNumber v = Inr x" and "num_ge x billion"
  shows "ToBoolean v"
proof (rule ccontr)
  assume "\<not> ToBoolean v"
  from falsy_number[OF this assms(1)] assms(2) show False
    by (auto simp: num_ge_def billion_eq shl_pos split: if_splits)
qed

lemma positive_truthy:
  assumes "ToNumber v = Inr x" and "num_lessThan (int_lit 0) x = Some True"
  shows "ToBoolean v"
proof (rule ccontr)
  assume "\<not> ToBoolean v"
  from falsy_number[OF this assms(1)] assms(2) show False
    by (auto simp: zero_eq split: if_splits)
qed

lemma digits_zero: "digits 0 = ''0''"
  by (subst digits.simps) simp

lemma toFixed_2_zero: "toFixed 2 (Finite neg 0 e) = ''0.00''"
proof -
  have "0 < shl 1 (- e)" by (rule shl_pos) simp
  then have "shl 1 (- e) div (2 * shl 1 (- e)) = 0" "\<not> 10 ^ 21 * shl 1 (- e) \<le> 0"
    by (simp_all add: div_pos_pos_trivial)
  then show ?thesis
    by (simp add: toFixed.simps ratio_zero digits_zero)
qed

text \<open>The digits printed by \<open>digits\<close> read back as the number.\<close>

lemma digit_char_value:
  "0 \<le> k \<Longrightarrow> k < 10 \<Longrightarrow> digit_value 10 (''0123456789'' ! nat k) = Some k"
proof -
  assume "0 \<le> k" "k < 10"
  then have "k = 0 \<or> k = 1 \<or> k = 2 \<or> k = 3 \<or> k = 4 \<or> k = 5 \<or> k = 6 \<or> k = 7 \<or> k = 8 \<or> k = 9"
    by arith
  then show ?thesis
    by (auto simp: digit_value_def Let_def)
qed

lemma digits_value_append:
  "digits_value r acc (xs @ ys) =
     (case digits_value r acc xs of None \<Rightarrow> None | Some v \<Rightarrow> digits_value r v ys)"
  by (induction xs arbitrary: acc) (auto split: option.splits)

lemma digits_value_digits: "0 \<le> n \<Longrightarrow> digits_value 10 0 (digits n) = Some n"
proof (induction n rule: digits.induct)
  case (1 n)
  show ?case
  proof (cases "n < 10")
    case True
    with "1.prems" show ?thesis
      by (subst digits.simps) (simp add: digit_char_value)
  next
    case False
    with "1.prems" have "digits_value 10 0 (digits (n div 10)) = Some (n div 10)"
      using "1.IH" by simp
    moreover have "digit_value 10 (''0123456789'' ! nat (n mod 10)) = Some (n mod 10)"
      by (rule digit_char_value) simp_all
    ultimately show ?thesis using False
      by (subst digits.simps) (simp add: digits_value_append)
  qed
qed

lemma digits_value_zeros:
  "digits_value 10 0 (replicate j CHR ''0'' @ ds) = digits_value 10 0 ds"
  by (induction j) (simp_all add: digit_value_def)

text \<open>
  Below \<open>10 ^ 21\<close>, \<^verbatim>\<open>toFixed(2)\<close> prints a sign, at least one digit, the point and two
  digits, and the digits are those of the integer nearest to 100 times the magnitude
  \<open>a / b\<close>, which is \<open>(200 * a + b) div (2 * b)\<close> (the larger one on a tie).
\<close>

lemma toFixed_2_decimal:
  assumes r: "ratio m e = (a, b)" and small: "\<not> 10 ^ 21 * b \<le> a" and nonneg: "0 \<le> a" "0 < b"
  shows "\<exists>ip fp. toFixed 2 (Finite neg m e) = (if neg \<and> m \<noteq> 0 then ''-'' else []) @ ip @ ''.'' @ fp
           \<and> ip \<noteq> [] \<and> length fp = 2
           \<and> digits_value 10 0 (ip @ fp) = Some ((200 * a + b) div (2 * b))"
proof -
  define n where "n = (200 * a + b) div (2 * b)"
  define ds where "ds = replicate (3 - length (digits n)) CHR ''0'' @ digits n"
  have n0: "0 \<le> n" using nonneg by (simp add: n_def pos_imp_zdiv_nonneg_iff)
  have len: "3 \<le> length ds" by (simp add: ds_def)
  have v: "digits_value 10 0 ds = Some n"
    by (simp add: ds_def digits_value_zeros digits_value_digits n0)
  have eq: "toFixed 2 (Finite neg m e) =
      (if neg \<and> m \<noteq> 0 then ''-'' else []) @ take (length ds - 2) ds @ ''.'' @ drop (length ds - 2) ds"
    using r small by (simp add: toFixed.simps Let_def n_def ds_def)
  show ?thesis
    apply (rule exI[of _ "take (length ds - 2) ds"])
    apply (rule exI[of _ "drop (length ds - 2) ds"])
    using len v eq by (auto simp: n_def)
qed

section \<open>The formatting helpers: properties\<close>

text \<open>
  C2. \<^verbatim>\<open>formatMarketCap\<close>: a value of at least \<^verbatim>\<open>1e9\<close> is divided by \<^verbatim>\<open>1e9\<close>, printed by
  \<^verbatim>\<open>toFixed(2)\<close> between \<^verbatim>\<open>$\<close> and \<^verbatim>\<open>B\<close>; a positive value below \<^verbatim>\<open>1e9\<close> is divided by
  \<^verbatim>\<open>1e6\<close>, printed by \<^verbatim>\<open>toFixed(2)\<close> between \<^verbatim>\<open>$\<close> and \<^verbatim>\<open>M\<close>; zero, null and undefined
  give \<^verbatim>\<open>N/A\<close>. Here \<open>x\<close> is the Number that the value \<open>v\<close> is, or converts to.
\<close>

theorem formatMarketCap_cases:
  "(ToNumber v = Inr x \<and> num_ge x billion \<longrightarrow>
      formatMarketCap v = Inr (''$'' @ toFixed 2 (num_divide x billion) @ ''B'')) \<and>
   (ToNumber v = Inr x \<and> num_lessThan (int_lit 0) x = Some True \<and>
    num_lessThan x billion = Some True \<longrightarrow>
      formatMarketCap v = Inr (''$'' @ toFixed 2 (num_divide x million) @ ''M'')) \<and>
   formatMarketCap (Num (Finite neg 0 e)) = Inr ''N/A'' \<and>
   formatMarketCap Null = Inr ''N/A'' \<and>
   formatMarketCap Undefined = Inr ''N/A''"
  using ge_billion_truthy[of v x] positive_truthy[of v x]
  by (auto simp: formatMarketCap_def num_ge_def)

theorem formatMarketCap_witness:
  "num_ge (int_lit 2500000000) billion \<and>
   formatMarketCap (Num (int_lit 2500000000)) = Inr ''$2.50B'' \<and>
   num_lessThan (int_lit 0) (int_lit 5000000) = Some True \<and>
   num_lessThan (int_lit 5000000) billion = Some True \<and>
   formatMarketCap (Num (int_lit 5000000)) = Inr ''$5.00M''"
proof -
  have b: "num_ge (int_lit 2500000000) billion"
    by code_simp
  have vb: "toFixed 2 (num_divide (int_lit 2500000000) billion) = ''2.50''"
    by code_simp
  have m: "num_lessThan (int_lit 0) (int_lit 5000000) = Some True"
          "num_lessThan (int_lit 5000000) billion = Some True"
    by code_simp+
  have vm: "toFixed 2 (num_divide (int_lit 5000000) million) = ''5.00''"
    by code_simp
  from formatMarketCap_cases[of "Num (int_lit 2500000000)" "int_lit 2500000000"] b vb
  have "formatMarketCap (Num (int_lit 2500000000)) = Inr ''$2.50B''"
    by simp
  moreover from formatMarketCap_cases[of "Num (int_lit 5000000)" "int_lit 5000000"] m vm
  have "formatMarketCap (Num (int_lit 5000000)) = Inr ''$5.00M''"
    by simp
  ultimately show ?thesis using b m by simp
qed

text \<open>
  C3, as the specification states it, fails: every helper would give the same string for
  zero and for a missing input, but \<^verbatim>\<open>formatNumber(0)\<close> is \<^verbatim>\<open>0.00\<close> and
  \<^verbatim>\<open>formatNumber(undefined)\<close> is \<^verbatim>\<open>NaN\<close>.
\<close>

theorem formatNumber_zero_undefined_differ:
  "formatNumber (Num (int_lit 0)) = Inr ''0.00'' \<and>
   formatNumber Undefined = Inr ''NaN'' \<and>
   formatNumber (Num (int_lit 0)) \<noteq> formatNumber Undefined"
  by (simp add: formatNumber_def zero_eq toFixed_2_zero)

text \<open>
  C3, amended. \<^verbatim>\<open>formatMarketCap\<close>, \<^verbatim>\<open>formatPercentage\<close>, \<^verbatim>\<open>formatPrice\<close> and
  \<^verbatim>\<open>formatVolume\<close> give \<^verbatim>\<open>N/A\<close> for a zero (of either sign), for null and for undefined;
  \<^verbatim>\<open>formatNumber\<close> gives \<^verbatim>\<open>0.00\<close> for a zero and for null.
\<close>

theorem zero_and_missing_alike:
  "formatMarketCap (Num (Finite neg 0 e)) = Inr ''N/A'' \<and>
   formatMarketCap Null = Inr ''N/A'' \<and>
   formatMarketCap Undefined = Inr ''N/A'' \<and>
   formatPercentage (Num (Finite neg 0 e)) = Inr ''N/A'' \<and>
   formatPercentage Null = Inr ''N/A'' \<and>
   formatPercentage Undefined = Inr ''N/A'' \<and>
   formatPrice (Num (Finite neg 0 e)) = Inr ''N/A'' \<and>
   formatPrice Null = Inr ''N/A'' \<and>
   formatPrice Undefined = Inr ''N/A'' \<and>
   formatVolume tls (Num (Finite neg 0 e)) = Inr ''N/A'' \<and>
   formatVolume tls Null = Inr ''N/A'' \<and>
   formatVolume tls Undefined = Inr ''N/A'' \<and>
   formatNumber (Num (Finite neg 0 e)) = Inr ''0.00'' \<and>
   formatNumber Null = Inr ''0.00''"
  by (simp add: formatMarketCap_def formatPercentage_def formatPrice_def formatVolume_def
      formatNumber_def toFixed_2_zero)

theorem zero_and_missing_alike_witness:
  "formatPrice (Num (int_lit 0)) = formatPrice Null \<and>
   formatPrice (Num (int_lit 0)) = formatPrice Undefined \<and>
   formatNumber (Num (int_lit 0)) = formatNumber Null"
  using zero_and_missing_alike[of False "- 1074"]
  by (simp add: zero_eq)

text \<open>
  C8. \<^verbatim>\<open>formatPercentage\<close>: a Number that is neither a zero nor NaN is multiplied by 100
  and printed by \<^verbatim>\<open>toFixed(2)\<close> before \<^verbatim>\<open>%\<close>; a zero, null and undefined give \<^verbatim>\<open>N/A\<close>;
  \<^verbatim>\<open>formatPercentage(0.0523)\<close> is \<^verbatim>\<open>5.23%\<close> and \<^verbatim>\<open>formatPercentage(0)\<close> is \<^verbatim>\<open>N/A\<close>.
  (NaN, which \<^verbatim>\<open>JSON.parse\<close> never gives, is falsy and gives \<^verbatim>\<open>N/A\<close> too.)
\<close>

theorem formatPercentage_cases:
  "(x \<noteq> NaN \<and> (\<forall>neg e. x \<noteq> Finite neg 0 e) \<longrightarrow>
      formatPercentage (Num x) = Inr (toFixed 2 (num_multiply x (int_lit 100)) @ ''%'')) \<and>
   formatPercentage (Num (Finite neg 0 e)) = Inr ''N/A'' \<and>
   formatPercentage Null = Inr ''N/A'' \<and>
   formatPercentage Undefined = Inr ''N/A'' \<and>
   formatPercentage (Num (dec_lit 523 10000)) = Inr ''5.23%'' \<and>
   formatPercentage (Num (int_lit 0)) = Inr ''N/A'' \<and>
   formatPercentage (Num NaN) = Inr ''N/A''"
proof -
  have "ToBoolean (Num x)" if "x \<noteq> NaN" "\<forall>neg e. x \<noteq> Finite neg 0 e"
    using that by (cases x) auto
  then have general: "x \<noteq> NaN \<and> (\<forall>neg e. x \<noteq> Finite neg 0 e) \<longrightarrow>
      formatPercentage (Num x) = Inr (toFixed 2 (num_multiply x (int_lit 100)) @ ''%'')"
    by (simp add: formatPercentage_def)
  have example: "formatPercentage (Num (dec_lit 523 10000)) = Inr ''5.23%''"
    by code_simp
  show ?thesis
    using general example by (simp add: formatPercentage_def zero_eq)
qed

theorem formatPercentage_witness:
  "dec_lit 25 100 = Finite False 4503599627370496 (- 54) \<and>
   formatPercentage (Num (dec_lit 25 100)) = Inr ''25.00%''"
proof -
  have v: "dec_lit 25 100 = Finite False 4503599627370496 (- 54)"
    by code_simp
  have p: "toFixed 2 (num_multiply (dec_lit 25 100) (int_lit 100)) = ''25.00''"
    by code_simp
  from formatPercentage_cases[of "dec_lit 25 100"] p
  have "formatPercentage (Num (dec_lit 25 100)) = Inr ''25.00%''"
    by (simp add: v)
  then show ?thesis using v by simp
qed

text \<open>
  C9. \<^verbatim>\<open>formatNumber\<close> passes the string \<^verbatim>\<open>N/A\<close> through and prints every other value,
  converted to a Number, by \<^verbatim>\<open>toFixed(2)\<close>. It returns a string for undefined, null, and
  every boolean, Number and String. Where the Number is finite and below \<open>10 ^ 21\<close> in
  magnitude, the string is a sign, digits, the point and two digits, which read as the
  integer nearest to 100 times the magnitude.
\<close>

theorem formatNumber_cases:
  "formatNumber (Str ''N/A'') = Inr ''N/A'' \<and>
   (v \<noteq> Str ''N/A'' \<and> ToNumber v = Inr x \<longrightarrow> formatNumber v = Inr (toFixed 2 x)) \<and>
   (\<exists>r. formatNumber Undefined = Inr r) \<and>
   (\<exists>r. formatNumber Null = Inr r) \<and>
   (\<exists>r. formatNumber (Bool b) = Inr r) \<and>
   (\<exists>r. formatNumber (Num n) = Inr r) \<and>
   (\<exists>r. formatNumber (Str s) = Inr r) \<and>
   (v \<noteq> Str ''N/A'' \<and> ToNumber v = Inr (Finite neg m e) \<and> 0 \<le> m \<and>
    \<not> 10 ^ 21 * snd (ratio m e) \<le> fst (ratio m e) \<longrightarrow>
      (\<exists>ip fp. formatNumber v = Inr ((if neg \<and> m \<noteq> 0 then ''-'' else []) @ ip @ ''.'' @ fp)
         \<and> ip \<noteq> [] \<and> length fp = 2
         \<and> digits_value 10 0 (ip @ fp)
             = Some ((200 * fst (ratio m e) + snd (ratio m e)) div (2 * snd (ratio m e)))))"
proof -
  have shape: "\<exists>ip fp. formatNumber v = Inr ((if neg \<and> m \<noteq> 0 then ''-'' else []) @ ip @ ''.'' @ fp)
         \<and> ip \<noteq> [] \<and> length fp = 2
         \<and> digits_value 10 0 (ip @ fp)
             = Some ((200 * fst (ratio m e) + snd (ratio m e)) div (2 * snd (ratio m e)))"
    if "v \<noteq> Str ''N/A''" "ToNumber v = Inr (Finite neg m e)" "0 \<le> m"
       "\<not> 10 ^ 21 * snd (ratio m e) \<le> fst (ratio m e)"
  proof -
    have "0 \<le> fst (ratio m e)" "0 < snd (ratio m e)"
      using that(3) by (simp_all add: ratio_def shl_def)
    from toFixed_2_decimal[OF prod.collapse[symmetric] that(4) this, of neg]
    show ?thesis using that(1,2) by (simp add: formatNumber_def)
  qed
  show ?thesis
    using shape by (auto simp: formatNumber_def)
qed

theorem formatNumber_witness:
  "ToNumber (Str ''3.14159'') = Inr (Finite False 7074231776675438 (- 51)) \<and>
   \<not> 10 ^ 21 * snd (ratio 7074231776675438 (- 51)) \<le> fst (ratio 7074231776675438 (- 51)) \<and>
   formatNumber (Str ''3.14159'') = Inr ''3.14'' \<and>
   (\<exists>ip fp. formatNumber (Str ''3.14159'') = Inr (ip @ ''.'' @ fp) \<and> ip \<noteq> [] \<and> length fp = 2
      \<and> digits_value 10 0 (ip @ fp) = Some 314)"
proof -
  have n: "ToNumber (Str ''3.14159'') = Inr (Finite False 7074231776675438 (- 51))"
    by code_simp
  have small: "\<not> 10 ^ 21 * snd (ratio 7074231776675438 (- 51)) \<le> fst (ratio 7074231776675438 (- 51))"
    by code_simp
  have nearest: "(200 * fst (ratio 7074231776675438 (- 51)) + snd (ratio 7074231776675438 (- 51)))
      div (2 * snd (ratio 7074231776675438 (- 51))) = 314"
    by code_simp
  have f: "toFixed 2 (Finite False 7074231776675438 (- 51)) = ''3.14''"
    by code_simp
  note inst = formatNumber_cases[of "Str ''3.14159''" "Finite False 7074231776675438 (- 51)"
      True NaN "[]" False 7074231776675438 "- 51"]
  from inst n f have fmt: "formatNumber (Str ''3.14159'') = Inr ''3.14''"
    by simp
  have ne: "Str ''3.14159'' \<noteq> Str ''N/A''" and pos: "(0::int) \<le> 7074231776675438"
    by simp_all
  from inst n small ne pos
  have "\<exists>ip fp. formatNumber (Str ''3.14159'')
        = Inr ((if False \<and> (7074231776675438::int) \<noteq> 0 then ''-'' else []) @ ip @ ''.'' @ fp)
      \<and> ip \<noteq> [] \<and> length fp = 2
      \<and> digits_value 10 0 (ip @ fp)
          = Some ((200 * fst (ratio 7074231776675438 (- 51)) + snd (ratio 7074231776675438 (- 51)))
              div (2 * snd (ratio 7074231776675438 (- 51))))"
    by blast
  then have "\<exists>ip fp. formatNumber (Str ''3.14159'') = Inr (ip @ ''.'' @ fp)
      \<and> ip \<noteq> [] \<and> length fp = 2 \<and> digits_value 10 0 (ip @ fp) = Some 314"
    unfolding nearest by simp
  with n small fmt show ?thesis by blast
qed

text \<open>
  C10. \<^verbatim>\<open>formatNumber\<close> converts its input to a Number instead of testing it: null
  becomes \<open>+0\<close> and prints as \<^verbatim>\<open>0.00\<close>, undefined becomes NaN and prints as \<^verbatim>\<open>NaN\<close>. The
  four other helpers give \<^verbatim>\<open>N/A\<close> for null and for undefined.
\<close>

theorem formatNumber_missing:
  "formatNumber Null = Inr ''0.00'' \<and>
   formatNumber Undefined = Inr ''NaN'' \<and>
   ToNumber Null = Inr (int_lit 0) \<and>
   ToNumber Undefined = Inr NaN \<and>
   formatMarketCap Null = Inr ''N/A'' \<and> formatMarketCap Undefined = Inr ''N/A'' \<and>
   formatPercentage Null = Inr ''N/A'' \<and> formatPercentage Undefined = Inr ''N/A'' \<and>
   formatPrice Null = Inr ''N/A'' \<and> formatPrice Undefined = Inr ''N/A'' \<and>
   formatVolume tls Null = Inr ''N/A'' \<and> formatVolume tls Undefined = Inr ''N/A''"
  by (simp add: formatMarketCap_def formatPercentage_def formatPrice_def formatVolume_def
      formatNumber_def toFixed_2_zero zero_eq)

theorem formatNumber_missing_witness:
  "formatNumber Null \<noteq> Inr ''N/A'' \<and> formatNumber Undefined \<noteq> Inr ''N/A'' \<and>
   formatVolume (\<lambda>v. Inr ''1,234'') Null = Inr ''N/A''"
  using formatNumber_missing[of "\<lambda>v. Inr ''1,234''"]
  by simp

section \<open>The script: properties\<close>

subsection \<open>Running statements\<close>

lemmas run_defs = bind_def return_def throw_def lift_def await_def try_catch_def
  getElementById_def get_val_def update_element_def set_textContent_def set_innerHTML_def
  set_val_def alert_def console_error_def fetch_def library_def json_def

lemma example_page_document:
  "document (example_page selected symbol date) ''db-entries'' =
     Some (drop_down_list
       (if selected = [] then [] else [Option_Element [(''value'', selected)] selected]) selected)"
  "document (example_page selected symbol date) ''symbol'' = Some (text_field symbol)"
  "document (example_page selected symbol date) ''purchase-date'' = Some (text_field date)"
  "document (example_page selected symbol date) ''chart-container'' = Some blank"
  "list_all (\<lambda>i. document (example_page selected symbol date) i \<noteq> None) elements"
  by (simp_all add: example_page_def elements_def)

lemma assign_textContent_present:
  "document s i = Some el \<Longrightarrow>
   assign_textContent i (Inr str) s =
     (Inr (), s\<lparr>document := (document s)(i \<mapsto> set_children (text_nodes str) el)\<rparr>)"
  by (simp add: assign_textContent_def run_defs)

lemma clear_block:
  "list_all (\<lambda>i. document s i \<noteq> None) ids \<Longrightarrow> distinct ids \<Longrightarrow>
   block (map (\<lambda>i. assign_textContent i (Inr ''-'')) ids) s =
     (Inr (), s\<lparr>document := (\<lambda>i. if i \<in> set ids
        then map_option (set_children [Text_Node ''-'']) (document s i) else document s i)\<rparr>)"
proof (induction ids arbitrary: s)
  case Nil
  then show ?case by (simp add: return_def)
next
  case (Cons i ids)
  from Cons.prems obtain el where el: "document s i = Some el" by auto
  let ?s = "s\<lparr>document := (document s)(i \<mapsto> set_children [Text_Node ''-''] el)\<rparr>"
  have "list_all (\<lambda>i. document ?s i \<noteq> None) ids"
    using Cons.prems by (auto simp: list_all_iff)
  from Cons.IH[OF this] Cons.prems(2) show ?case
    using el
    by (auto simp: bind_def assign_textContent_present text_nodes_def fun_eq_iff
        intro!: state.equality)
qed

lemma clearStockInfo_present:
  "list_all (\<lambda>i. document s i \<noteq> None) elements \<Longrightarrow>
   clearStockInfo s = (Inr (), s\<lparr>document := cleared (document s)\<rparr>)"
  unfolding clearStockInfo_def cleared_def by (rule clear_block) (simp_all add: elements_def)

lemma showChart_catch_present:
  "list_all (\<lambda>i. document s i \<noteq> None) elements \<Longrightarrow>
   showChart_catch e s =
     (Inr (), s\<lparr>effects := effects s @ [ConsoleError ''Error loading data:'' e, Alert ''Error loading data''],
               document := cleared (document s)\<rparr>)"
  by (simp add: showChart_catch_def bind_def console_error_def alert_def return_def
      clearStockInfo_present)

lemma requests_failure:
  assumes "requests_outcome h symbol date = Inl e"
  shows "bind (fetch h (chart_data_request symbol date)) (\<lambda>p.
          bind (fetch h (stock_info_request symbol)) (\<lambda>q.
          bind (await (Promise_all (first_settles_first h) p q)) (\<lambda>(chartResponse, infoResponse).
          bind (await (json chartResponse)) (\<lambda>chartData.
          bind (await (json infoResponse)) (\<lambda>infoData. k chartData infoData))))) s
        = (Inl e, s\<lparr>effects := effects s @ [Fetch (chart_data_request symbol date),
                                              Fetch (stock_info_request symbol)]\<rparr>)"
  using assms
  by (auto simp: requests_outcome_def bindE_def Promise_all_def run_defs split: sum.splits)

lemma requests_success:
  assumes "requests_outcome h symbol date = Inr (chartData, infoData)"
  shows "bind (fetch h (chart_data_request symbol date)) (\<lambda>p.
          bind (fetch h (stock_info_request symbol)) (\<lambda>q.
          bind (await (Promise_all (first_settles_first h) p q)) (\<lambda>(chartResponse, infoResponse).
          bind (await (json chartResponse)) (\<lambda>chartData.
          bind (await (json infoResponse)) (\<lambda>infoData. k chartData infoData))))) s
        = k chartData infoData (s\<lparr>effects := effects s @ [Fetch (chart_data_request symbol date),
                                              Fetch (stock_info_request symbol)]\<rparr>)"
  using assms
  by (auto simp: requests_outcome_def bindE_def Promise_all_def run_defs split: sum.splits)

lemma split_without: "c \<notin> set xs \<Longrightarrow> split c xs = [xs]"
  by (induction xs) auto

lemma split_pair: "c \<notin> set xs \<Longrightarrow> c \<notin> set ys \<Longrightarrow> split c (xs @ c # ys) = [xs, ys]"
  by (induction xs) (auto simp: split_without)

lemma join_empty: "join [] xs = concat xs"
proof (induction xs)
  case Nil
  show ?case by simp
next
  case (Cons x xs)
  then show ?case by (cases xs) simp_all
qed

subsection \<open>Markup\<close>

text \<open>
  The markup that the template of \<^verbatim>\<open>loadDbEntries\<close> makes of plain symbols and dates is
  parsed into one \<^verbatim>\<open>option\<close> element for each of them.
\<close>

lemma plain_iff:
  "plain s \<longleftrightarrow> CHR 0x22 \<notin> set s \<and> CHR ''&'' \<notin> set s \<and> CHR ''<'' \<notin> set s \<and>
     CHR 0x00 \<notin> set s \<and> CHR 0x0D \<notin> set s"
  by (auto simp: plain_def list_all_iff)

lemma normalize_newlines_without: "CHR 0x0D \<notin> set s \<Longrightarrow> normalize_newlines s = s"
  by (induction s rule: normalize_newlines.induct) auto

lemma tokenize_double_quoted:
  "CHR 0x22 \<notin> set v \<Longrightarrow> CHR ''&'' \<notin> set v \<Longrightarrow> CHR 0x00 \<notin> set v \<Longrightarrow>
   tokenize (AttributeValueDoubleQuoted t n acc) (v @ CHR 0x22 # rest) =
   tokenize (AfterAttributeValueQuoted (add_attribute n (acc @ v) t)) rest"
  by (induction v arbitrary: acc) auto

lemma tokenize_text:
  "CHR ''<'' \<notin> set t \<Longrightarrow> CHR ''&'' \<notin> set t \<Longrightarrow>
   tokenize Data (t @ CHR ''<'' # rest) =
   map_option ((@) (map Character t)) (tokenize TagOpen rest)"
proof (induction t)
  case Nil
  show ?case by (cases "tokenize TagOpen rest") simp_all
next
  case (Cons c t)
  then show ?case by (cases "tokenize TagOpen rest") (auto simp: emit_def)
qed

lemma tokenize_start_tag:
  "tokenize Data (''<option value='' @ dquote @ rest) =
   tokenize (AttributeValueDoubleQuoted (False, ''option'', []) ''value'' []) rest"
  by (simp add: dquote_def is_alpha_def to_lower_def is_whitespace_def)

lemma tokenize_end_tag:
  "tokenize TagOpen (''/option>'' @ rest) = emit (EndTag ''option'') (tokenize Data rest)"
  by (simp add: is_alpha_def to_lower_def is_whitespace_def)

lemma tokenize_option_html:
  assumes "plain symbol" and "plain date"
  shows "tokenize Data (option_html symbol date @ rest) =
    map_option (\<lambda>ts. StartTag ''option'' [(''value'', symbol @ ''|'' @ date)] False #
                     map Character (symbol @ '' - '' @ date) @ EndTag ''option'' # ts)
      (tokenize Data rest)"
proof -
  define v where "v = symbol @ ''|'' @ date"
  define t where "t = symbol @ '' - '' @ date"
  have v: "CHR 0x22 \<notin> set v" "CHR ''&'' \<notin> set v" "CHR 0x00 \<notin> set v"
    and t: "CHR ''<'' \<notin> set t" "CHR ''&'' \<notin> set t"
    using assms by (auto simp: plain_iff v_def t_def)
  have shape: "option_html symbol date @ rest =
      ''<option value='' @ dquote @ (v @ CHR 0x22 # (CHR ''>'' # (t @ CHR ''<'' # (''/option>'' @ rest))))"
    by (simp add: option_html_def dquote_def v_def t_def)
  have "tokenize Data (option_html symbol date @ rest) =
      tokenize (AfterAttributeValueQuoted (add_attribute ''value'' ([] @ v) (False, ''option'', [])))
        (CHR ''>'' # (t @ CHR ''<'' # (''/option>'' @ rest)))"
    unfolding shape tokenize_start_tag tokenize_double_quoted[OF v] ..
  also have "\<dots> = emit (StartTag ''option'' [(''value'', v)] False)
      (tokenize Data (t @ CHR ''<'' # (''/option>'' @ rest)))"
    by (simp add: is_whitespace_def)
  also have "tokenize Data (t @ CHR ''<'' # (''/option>'' @ rest)) =
      map_option ((@) (map Character t)) (emit (EndTag ''option'') (tokenize Data rest))"
    unfolding tokenize_text[OF t] tokenize_end_tag ..
  finally show ?thesis
    unfolding v_def[symmetric] t_def[symmetric]
    by (cases "tokenize Data rest") (simp_all add: emit_def)
qed

lemma construct_text:
  "CHR 0x00 \<notin> set t \<Longrightarrow>
   construct ns (Some (a, acc)) (map Character t @ ts) = construct ns (Some (a, acc @ t)) ts"
proof (induction t arbitrary: acc)
  case Nil
  show ?case by simp
next
  case (Cons c t)
  from Cons.prems have c: "c \<noteq> CHR 0x00" and t: "CHR 0x00 \<notin> set t" by auto
  show ?case using Cons.IH[OF t, of "acc @ [c]"] c by simp
qed

lemma option_html_without_cr:
  assumes "plain symbol" and "plain date"
  shows "CHR 0x0D \<notin> set (option_html symbol date)"
proof -
  from assms have "CHR 0x0D \<notin> set symbol" "CHR 0x0D \<notin> set date"
    by (simp_all add: plain_iff)
  then show ?thesis by (simp add: option_html_def dquote_def)
qed

lemma markup_without_cr:
  assumes "list_all (\<lambda>(symbol, date). plain symbol \<and> plain date) records"
  shows "CHR 0x0D \<notin> set (concat (map (\<lambda>(symbol, date). option_html symbol date) records))"
  using assms
proof (induction records)
  case Nil
  show ?case by simp
next
  case (Cons r records)
  obtain symbol date where r: "r = (symbol, date)" by (cases r)
  from Cons.prems r have "plain symbol" "plain date"
    and rest: "list_all (\<lambda>(symbol, date). plain symbol \<and> plain date) records"
    by simp_all
  from option_html_without_cr[OF this(1,2)] Cons.IH[OF rest] show ?case
    by (simp add: r)
qed

lemma construct_option:
  assumes "CHR 0x00 \<notin> set t"
  shows "construct ns None (StartTag ''option'' a f # map Character t @ EndTag ''option'' # ts) =
   construct (ns @ [Option_Element a t]) None ts"
proof -
  have "construct ns None (StartTag ''option'' a f # map Character t @ EndTag ''option'' # ts) =
      construct ns (Some (a, [])) (map Character t @ EndTag ''option'' # ts)"
    by simp
  also have "\<dots> = construct ns (Some (a, [] @ t)) (EndTag ''option'' # ts)"
    by (rule construct_text[OF assms])
  finally show ?thesis by simp
qed

lemma parse_options:
  assumes "list_all (\<lambda>(symbol, date). plain symbol \<and> plain date) records"
  shows "\<exists>ts. tokenize Data (concat (map (\<lambda>(symbol, date). option_html symbol date) records)) = Some ts \<and>
     (\<forall>ns. construct ns None ts = Some (ns @ map (\<lambda>(symbol, date). Option_Element [(''value'', symbol @ ''|'' @ date)] (symbol @ '' - '' @ date)) records))"
  using assms
proof (induction records)
  case Nil
  show ?case by simp
next
  case (Cons r records)
  obtain symbol date where r: "r = (symbol, date)" by (cases r)
  from Cons.prems r have p: "plain symbol" "plain date"
    and rest: "list_all (\<lambda>(symbol, date). plain symbol \<and> plain date) records"
    by simp_all
  from Cons.IH[OF rest] obtain ts
    where ts: "tokenize Data (concat (map (\<lambda>(symbol, date). option_html symbol date) records)) = Some ts"
      and c: "\<And>ns. construct ns None ts = Some (ns @ map (\<lambda>(symbol, date). Option_Element [(''value'', symbol @ ''|'' @ date)] (symbol @ '' - '' @ date)) records)"
    by blast
  have z: "CHR 0x00 \<notin> set (symbol @ '' - '' @ date)"
    using p by (simp add: plain_iff)
  let ?ts = "StartTag ''option'' [(''value'', symbol @ ''|'' @ date)] False #
      map Character (symbol @ '' - '' @ date) @ EndTag ''option'' # ts"
  have "tokenize Data (concat (map (\<lambda>(symbol, date). option_html symbol date) (r # records))) = Some ?ts"
    using tokenize_option_html[OF p, of "concat (map (\<lambda>(symbol, date). option_html symbol date) records)"]
    by (simp add: r ts)
  moreover have "construct ns None ?ts =
      Some (ns @ map (\<lambda>(symbol, date). Option_Element [(''value'', symbol @ ''|'' @ date)] (symbol @ '' - '' @ date)) (r # records))" for ns
    unfolding construct_option[OF z] c by (simp add: r)
  ultimately show ?case by blast
qed

lemma fragment_options:
  assumes "list_all (\<lambda>(symbol, date). plain symbol \<and> plain date) records"
  shows "fragment (concat (map (\<lambda>(symbol, date). option_html symbol date) records)) =
     map (\<lambda>(symbol, date). Option_Element [(''value'', symbol @ ''|'' @ date)] (symbol @ '' - '' @ date)) records"
proof -
  from parse_options[OF assms] obtain ts
    where "tokenize Data (concat (map (\<lambda>(symbol, date). option_html symbol date) records)) = Some ts"
      and "construct [] None ts = Some ([] @ map (\<lambda>(symbol, date). Option_Element [(''value'', symbol @ ''|'' @ date)] (symbol @ '' - '' @ date)) records)"
    by blast
  then show ?thesis
    by (simp add: fragment_def parse_fragment_def normalize_newlines_without[OF markup_without_cr[OF assms]])
qed


lemma fragment_empty: "fragment [] = []"
  by (simp add: fragment_def parse_fragment_def)

lemma bindE_simps: "bindE (Inr x) f = f x" "bindE (Inl e) f = Inl e"
  by (simp_all add: bindE_def)

lemma collect_printed:
  "list_all2 (\<lambda>entry (symbol, date).
      bindE (get_prop entry ''symbol'') ToString = Inr symbol \<and>
      bindE (get_prop entry ''date'') ToString = Inr date)
     entries records \<Longrightarrow>
   collect (map option_markup entries) = Inr (map (\<lambda>(symbol, date). option_html symbol date) records)"
  by (induction entries records rule: list_all2_induct)
     (auto simp: option_markup_def bindE_simps)

subsection \<open>showChart\<close>

text \<open>
  C4. When the symbol field or the date field is empty, \<^verbatim>\<open>showChart\<close> shows the alert and
  returns: no request is issued and nothing else changes.
\<close>

theorem showChart_empty_input:
  assumes "document s ''symbol'' = Some symbol_input"
    and "document s ''purchase-date'' = Some date_input"
    and "val symbol_input = [] \<or> val date_input = []"
  shows "showChart h s =
    (Inr (), s\<lparr>effects := effects s @ [Alert ''Please enter both symbol and date'']\<rparr>)"
  using assms by (auto simp: showChart_def run_defs)

theorem showChart_empty_input_witness:
  "document (example_page [] ''AAPL'' []) ''symbol'' = Some (text_field ''AAPL'') \<and>
   document (example_page [] ''AAPL'' []) ''purchase-date'' = Some (text_field []) \<and>
   val (text_field []) = [] \<and>
   fst (showChart (example_host (Inr (Inr Null)) (Inr (Inr Null))) (example_page [] ''AAPL'' [])) = Inr () \<and>
   effects (snd (showChart (example_host (Inr (Inr Null)) (Inr (Inr Null))) (example_page [] ''AAPL'' [])))
     = [Alert ''Please enter both symbol and date''] \<and>
   lib (snd (showChart (example_host (Inr (Inr Null)) (Inr (Inr Null))) (example_page [] ''AAPL'' []))) = []"
proof -
  have empty: "val (text_field ''AAPL'') = [] \<or> val (text_field []) = []"
    by (simp add: text_field_def)
  note run = showChart_empty_input[OF example_page_document(2,3) empty,
      of "example_host (Inr (Inr Null)) (Inr (Inr Null))"]
  show ?thesis
    unfolding run by (simp add: example_page_document text_field_def) (simp add: example_page_def)
qed

text \<open>
  C1, as the specification states it, fails: when both requests succeed and the chart
  response is the JSON value \<^verbatim>\<open>null\<close>, \<^verbatim>\<open>renderChart\<close> is invoked, creates the chart and
  a series, and throws at \<^verbatim>\<open>data.candlestick\<close>. \<^verbatim>\<open>updateStockInfo\<close>, which would have
  succeeded on the info response, is not invoked: the error is logged, the alert is shown
  and the info panel is cleared.
\<close>

theorem showChart_null_chart_data:
  "requests_outcome (example_host (Inr (Inr Null)) (Inr (Inr example_info))) ''AAPL'' ''2024-01-05''
     = Inr (Null, example_info) \<and>
   fst (updateStockInfo (example_host (Inr (Inr Null)) (Inr (Inr example_info))) example_info
         (example_page [] ''AAPL'' ''2024-01-05'')) = Inr () \<and>
   effects (snd (showChart (example_host (Inr (Inr Null)) (Inr (Inr example_info)))
                  (example_page [] ''AAPL'' ''2024-01-05'')))
     = [Fetch (chart_data_request ''AAPL'' ''2024-01-05''),
        Fetch (stock_info_request ''AAPL''),
        ConsoleError ''Error loading data:'' TypeError,
        Alert ''Error loading data''] \<and>
   info_panel (snd (showChart (example_host (Inr (Inr Null)) (Inr (Inr example_info)))
                  (example_page [] ''AAPL'' ''2024-01-05'')))
     = [Some [Text_Node ''-''], Some [Text_Node ''-''], Some [Text_Node ''-''],
        Some [Text_Node ''-''], Some [Text_Node ''-''], Some [Text_Node ''-''],
        Some [Text_Node ''-''], Some [Text_Node ''-''], Some [Text_Node ''-'']] \<and>
   lib (snd (showChart (example_host (Inr (Inr Null)) (Inr (Inr example_info)))
                  (example_page [] ''AAPL'' ''2024-01-05'')))
     = [CreateChart ''chart-container'' chart_options,
        AddCandlestickSeries 0 candlestick_options] \<and>
   map_option children (document (snd (showChart (example_host (Inr (Inr Null))
        (Inr (Inr example_info))) (example_page [] ''AAPL'' ''2024-01-05''))) ''chart-container'')
     = Some [Chart_Element 0]"
  by code_simp

text \<open>
  C1, amended. With both fields filled in, \<^verbatim>\<open>showChart\<close> issues the two requests. If one of
  them fails (a rejected request or a body that does not parse, whatever the other does),
  neither \<^verbatim>\<open>renderChart\<close> nor \<^verbatim>\<open>updateStockInfo\<close> is invoked: the error is logged, the alert
  is shown, the nine fields are set to \<^verbatim>\<open>-\<close>, and the chart, the calls to the library and
  the rest of the document stay as they were. If both succeed, \<^verbatim>\<open>renderChart\<close> is invoked
  with the parsed chart response; when it returns, \<^verbatim>\<open>updateStockInfo\<close> is invoked with the
  parsed info response, and when it throws, the same handler runs instead.
\<close>

theorem showChart_requests:
  assumes "document s ''symbol'' = Some symbol_input"
    and "document s ''purchase-date'' = Some date_input"
    and "val symbol_input \<noteq> []" and "val date_input \<noteq> []"
    and "list_all (\<lambda>i. document s i \<noteq> None) elements"
  shows
    "(requests_outcome h (val symbol_input) (val date_input) = Inl e \<longrightarrow>
        showChart h s =
          (Inr (), s\<lparr>effects := effects s @
                       [Fetch (chart_data_request (val symbol_input) (val date_input)),
                        Fetch (stock_info_request (val symbol_input)),
                        ConsoleError ''Error loading data:'' e,
                        Alert ''Error loading data''],
                     document := cleared (document s)\<rparr>)) \<and>
     (requests_outcome h (val symbol_input) (val date_input) = Inr (chartData, infoData) \<longrightarrow>
        showChart h s =
          (case renderChart chartData (val symbol_input)
                  (s\<lparr>effects := effects s @
                       [Fetch (chart_data_request (val symbol_input) (val date_input)),
                        Fetch (stock_info_request (val symbol_input))]\<rparr>) of
             (Inr _, s') \<Rightarrow> try_catch (updateStockInfo h infoData) showChart_catch s'
           | (Inl e', s') \<Rightarrow> showChart_catch e' s'))"
proof -
  let ?symbol = "val symbol_input" and ?date = "val date_input"
  let ?s2 = "s\<lparr>effects := effects s @
      [Fetch (chart_data_request ?symbol ?date), Fetch (stock_info_request ?symbol)]\<rparr>"
  have start: "showChart h s =
      try_catch
        (bind (fetch h (chart_data_request ?symbol ?date)) (\<lambda>p.
         bind (fetch h (stock_info_request ?symbol)) (\<lambda>q.
         bind (await (Promise_all (first_settles_first h) p q)) (\<lambda>(chartResponse, infoResponse).
         bind (await (json chartResponse)) (\<lambda>chartData.
         bind (await (json infoResponse)) (\<lambda>infoData.
         block [renderChart chartData ?symbol, updateStockInfo h infoData]))))))
        showChart_catch s"
    using assms(1-4) by (simp add: showChart_def bind_def getElementById_def get_val_def)
  have present: "list_all (\<lambda>i. document ?s2 i \<noteq> None) elements"
    using assms(5) by simp
  have fail: "showChart h s =
      (Inr (), s\<lparr>effects := effects s @
                   [Fetch (chart_data_request ?symbol ?date), Fetch (stock_info_request ?symbol),
                    ConsoleError ''Error loading data:'' e, Alert ''Error loading data''],
                 document := cleared (document s)\<rparr>)"
    if "requests_outcome h ?symbol ?date = Inl e"
    unfolding start
    by (simp add: try_catch_def requests_failure[OF that] showChart_catch_present[OF present])
  have ok: "showChart h s =
      (case renderChart chartData ?symbol ?s2 of
         (Inr _, s') \<Rightarrow> try_catch (updateStockInfo h infoData) showChart_catch s'
       | (Inl e', s') \<Rightarrow> showChart_catch e' s')"
    if "requests_outcome h ?symbol ?date = Inr (chartData, infoData)"
  proof -
    note body = requests_success[OF that,
        of "\<lambda>c i. block [renderChart c ?symbol, updateStockInfo h i]" s]
    have "showChart h s =
        try_catch (block [renderChart chartData ?symbol, updateStockInfo h infoData])
          showChart_catch ?s2"
      unfolding start try_catch_def body ..
    then show ?thesis
      by (simp add: try_catch_def bind_def return_def split: prod.splits sum.splits)
  qed
  from fail ok show ?thesis by blast
qed

theorem showChart_requests_witness:
  "chart_data_request ''AAPL'' ''2024-01-05'' =
     \<lparr>http_method = ''POST'', url = ''/api/chart-data'',
      headers = [(''Content-Type'', ''application/json'')],
      body = Some (Obj [(''symbol'', Str ''AAPL''), (''purchase_date'', Str ''2024-01-05'')])\<rparr> \<and>
   stock_info_request ''AAPL'' =
     \<lparr>http_method = ''GET'', url = ''/api/stock-info/AAPL'', headers = [], body = None\<rparr> \<and>
   requests_outcome (example_host (Inr (Inr example_chart_data)) (Inl (Error ''offline'')))
      ''AAPL'' ''2024-01-05'' = Inl (Error ''offline'') \<and>
   effects (snd (showChart (example_host (Inr (Inr example_chart_data)) (Inl (Error ''offline'')))
                  (example_page [] ''AAPL'' ''2024-01-05'')))
     = [Fetch (chart_data_request ''AAPL'' ''2024-01-05''),
        Fetch (stock_info_request ''AAPL''),
        ConsoleError ''Error loading data:'' (Error ''offline''),
        Alert ''Error loading data''] \<and>
   lib (snd (showChart (example_host (Inr (Inr example_chart_data)) (Inl (Error ''offline'')))
                  (example_page [] ''AAPL'' ''2024-01-05''))) = [] \<and>
   chart (snd (showChart (example_host (Inr (Inr example_chart_data)) (Inl (Error ''offline'')))
                  (example_page [] ''AAPL'' ''2024-01-05''))) = None \<and>
   requests_outcome (example_host (Inr (Inr example_chart_data)) (Inr (Inr example_info)))
      ''AAPL'' ''2024-01-05'' = Inr (example_chart_data, example_info) \<and>
   info_panel (snd (showChart (example_host (Inr (Inr example_chart_data)) (Inr (Inr example_info)))
                  (example_page [] ''AAPL'' ''2024-01-05'')))
     = [Some [Text_Node ''Acme Corp''], Some [Text_Node ''Technology''],
        Some [Text_Node ''Software''], Some [Text_Node ''$2.50B''], Some [Text_Node ''N/A''],
        Some [Text_Node ''5.23%''], Some [Text_Node ''$142.50''], Some [Text_Node ''N/A''],
        Some [Text_Node ''1,234,567'']]"
proof -
  let ?s = "example_page [] ''AAPL'' ''2024-01-05''"
  let ?bad = "example_host (Inr (Inr example_chart_data)) (Inl (Error ''offline''))"
  let ?good = "example_host (Inr (Inr example_chart_data)) (Inr (Inr example_info))"
  have filled: "val (text_field ''AAPL'') \<noteq> []" "val (text_field ''2024-01-05'') \<noteq> []"
    by (simp_all add: text_field_def)
  have vals: "val (text_field ''AAPL'') = ''AAPL''"
    "val (text_field ''2024-01-05'') = ''2024-01-05''"
    by (simp_all add: text_field_def)
  have failure: "requests_outcome ?bad ''AAPL'' ''2024-01-05'' = Inl (Error ''offline'')"
    by code_simp
  have success: "requests_outcome ?good ''AAPL'' ''2024-01-05'' = Inr (example_chart_data, example_info)"
    by code_simp
  note bad = showChart_requests[OF example_page_document(2,3) filled example_page_document(5),
      where h = ?bad and e = "Error ''offline''" and chartData = Null and infoData = Null,
      unfolded vals]
  note good = showChart_requests[OF example_page_document(2,3) filled example_page_document(5),
      where h = ?good and e = TypeError and chartData = example_chart_data
        and infoData = example_info, unfolded vals]
  from bad failure have b: "showChart ?bad ?s =
      (Inr (), ?s\<lparr>effects := effects ?s @
                   [Fetch (chart_data_request ''AAPL'' ''2024-01-05''),
                    Fetch (stock_info_request ''AAPL''),
                    ConsoleError ''Error loading data:'' (Error ''offline''),
                    Alert ''Error loading data''],
                  document := cleared (document ?s)\<rparr>)"
    by blast
  from good success have g: "showChart ?good ?s =
      (case renderChart example_chart_data ''AAPL''
              (?s\<lparr>effects := effects ?s @
                   [Fetch (chart_data_request ''AAPL'' ''2024-01-05''),
                    Fetch (stock_info_request ''AAPL'')]\<rparr>) of
         (Inr _, s') \<Rightarrow> try_catch (updateStockInfo ?good example_info) showChart_catch s'
       | (Inl e', s') \<Rightarrow> showChart_catch e' s')"
    by blast
  have panel: "info_panel (snd (case renderChart example_chart_data ''AAPL''
              (?s\<lparr>effects := effects ?s @
                   [Fetch (chart_data_request ''AAPL'' ''2024-01-05''),
                    Fetch (stock_info_request ''AAPL'')]\<rparr>) of
         (Inr _, s') \<Rightarrow> try_catch (updateStockInfo ?good example_info) showChart_catch s'
       | (Inl e', s') \<Rightarrow> showChart_catch e' s'))
     = [Some [Text_Node ''Acme Corp''], Some [Text_Node ''Technology''],
        Some [Text_Node ''Software''], Some [Text_Node ''$2.50B''], Some [Text_Node ''N/A''],
        Some [Text_Node ''5.23%''], Some [Text_Node ''$142.50''], Some [Text_Node ''N/A''],
        Some [Text_Node ''1,234,567'']]"
    by code_simp
  have e: "effects ?s = []" "lib ?s = []" "chart ?s = None"
    by (simp_all add: example_page_def)
  have requests: "chart_data_request ''AAPL'' ''2024-01-05'' =
     \<lparr>http_method = ''POST'', url = ''/api/chart-data'',
      headers = [(''Content-Type'', ''application/json'')],
      body = Some (Obj [(''symbol'', Str ''AAPL''), (''purchase_date'', Str ''2024-01-05'')])\<rparr>"
    "stock_info_request ''AAPL'' =
     \<lparr>http_method = ''GET'', url = ''/api/stock-info/AAPL'', headers = [], body = None\<rparr>"
    by (simp_all add: chart_data_request_def stock_info_request_def get_request_def)
  show ?thesis
    unfolding b g panel using failure success e requests by simp
qed

subsection \<open>showDbChart\<close>

text \<open>
  C5, as the specification states it, fails. For the symbol \<^verbatim>\<open>A|B\<close> and the date
  \<^verbatim>\<open>2024-01-05\<close> the selected value is \<^verbatim>\<open>A|B|2024-01-05\<close>, and \<^verbatim>\<open>showDbChart\<close> writes
  \<^verbatim>\<open>A\<close> into the symbol field and \<^verbatim>\<open>B\<close> into the date field. And for a symbol made of
  \<^verbatim>\<open>A\<close>, a line feed and \<^verbatim>\<open>B\<close>, the symbol field, a text field, holds \<^verbatim>\<open>AB\<close>
  afterwards, and the requests of \<^verbatim>\<open>showChart\<close> are made for \<^verbatim>\<open>AB\<close>.
\<close>

theorem showDbChart_separator_in_symbol:
  "map_option val (document (example_page ''A|B|2024-01-05'' [] []) ''db-entries'')
     = Some (''A|B'' @ ''|'' @ ''2024-01-05'') \<and>
   map_option val (document (snd (showDbChart (example_host (Inr (Inr example_chart_data))
        (Inr (Inr example_info))) (example_page ''A|B|2024-01-05'' [] []))) ''symbol'') = Some ''A'' \<and>
   map_option val (document (snd (showDbChart (example_host (Inr (Inr example_chart_data))
        (Inr (Inr example_info))) (example_page ''A|B|2024-01-05'' [] []))) ''purchase-date'') = Some ''B'' \<and>
   map_option val (document (example_page ([CHR ''A'', CHR 0x0A, CHR ''B''] @ ''|2024-01-05'') [] [])
        ''db-entries'')
     = Some ([CHR ''A'', CHR 0x0A, CHR ''B''] @ ''|'' @ ''2024-01-05'') \<and>
   map_option val (document (snd (showDbChart (example_host (Inr (Inr example_chart_data))
        (Inr (Inr example_info)))
        (example_page ([CHR ''A'', CHR 0x0A, CHR ''B''] @ ''|2024-01-05'') [] []))) ''symbol'')
     = Some ''AB'' \<and>
   take 2 (effects (snd (showDbChart (example_host (Inr (Inr example_chart_data))
        (Inr (Inr example_info)))
        (example_page ([CHR ''A'', CHR 0x0A, CHR ''B''] @ ''|2024-01-05'') [] []))))
     = [Fetch (chart_data_request ''AB'' ''2024-01-05''), Fetch (stock_info_request ''AB'')]"
  by code_simp

text \<open>
  C5, amended. For a selected value \<^verbatim>\<open>symbol|date\<close> where neither the symbol nor the date
  contains \<^verbatim>\<open>|\<close>, and where the two input fields keep the symbol and the date as they are
  assigned, \<^verbatim>\<open>showDbChart\<close> writes exactly that symbol and that date into the two input
  fields and then does what \<^verbatim>\<open>showChart\<close> does from there.
\<close>

theorem showDbChart_delegates:
  assumes "document s ''db-entries'' = Some select"
    and "val select = symbol @ ''|'' @ date"
    and "CHR ''|'' \<notin> set symbol" and "CHR ''|'' \<notin> set date"
    and "document s ''symbol'' = Some symbol_input"
    and "document s ''purchase-date'' = Some date_input"
    and "value_assigned symbol_input (children symbol_input) symbol = symbol"
    and "value_assigned date_input (children date_input) date = date"
  shows "showDbChart h s =
      (Inr (), snd (showChart h
         (s\<lparr>document := (document s)
              (''symbol'' \<mapsto> symbol_input\<lparr>val := symbol\<rparr>,
               ''purchase-date'' \<mapsto> date_input\<lparr>val := date\<rparr>)\<rparr>)))"
proof -
  have parts: "split CHR ''|'' (val select) = [symbol, date]"
    using assms(2-4) by (simp add: split_pair)
  show ?thesis
    using assms(1,5-8)
    by (simp add: showDbChart_def parts value_string_def run_defs numeral_2_eq_2)
qed

theorem showDbChart_delegates_witness:
  "map_option val (document (example_page ''AAPL|2024-01-05'' [] []) ''db-entries'')
     = Some (''AAPL'' @ ''|'' @ ''2024-01-05'') \<and>
   value_assigned (text_field []) (children (text_field [])) ''AAPL'' = ''AAPL'' \<and>
   value_assigned (text_field []) (children (text_field [])) ''2024-01-05'' = ''2024-01-05'' \<and>
   fst (showDbChart (example_host (Inr (Inr example_chart_data)) (Inr (Inr example_info)))
         (example_page ''AAPL|2024-01-05'' [] [])) = Inr () \<and>
   map_option val (document (snd (showDbChart (example_host (Inr (Inr example_chart_data))
        (Inr (Inr example_info))) (example_page ''AAPL|2024-01-05'' [] []))) ''symbol'') = Some ''AAPL'' \<and>
   map_option val (document (snd (showDbChart (example_host (Inr (Inr example_chart_data))
        (Inr (Inr example_info))) (example_page ''AAPL|2024-01-05'' [] []))) ''purchase-date'')
     = Some ''2024-01-05'' \<and>
   effects (snd (showDbChart (example_host (Inr (Inr example_chart_data)) (Inr (Inr example_info)))
         (example_page ''AAPL|2024-01-05'' [] [])))
     = effects (snd (showChart (example_host (Inr (Inr example_chart_data)) (Inr (Inr example_info)))
         (example_page ''AAPL|2024-01-05'' ''AAPL'' ''2024-01-05'')))"
proof -
  let ?h = "example_host (Inr (Inr example_chart_data)) (Inr (Inr example_info))"
  let ?s = "example_page ''AAPL|2024-01-05'' [] []"
  let ?select = "drop_down_list
      (if ''AAPL|2024-01-05'' = [] then []
       else [Option_Element [(''value'', ''AAPL|2024-01-05'')] ''AAPL|2024-01-05''])
      ''AAPL|2024-01-05''"
  let ?s' = "?s\<lparr>document := (document ?s)
              (''symbol'' \<mapsto> (text_field [])\<lparr>val := ''AAPL''\<rparr>,
               ''purchase-date'' \<mapsto> (text_field [])\<lparr>val := ''2024-01-05''\<rparr>)\<rparr>"
  have v: "val ?select = ''AAPL'' @ ''|'' @ ''2024-01-05''"
    by (simp add: drop_down_list_def)
  have clean: "CHR ''|'' \<notin> set ''AAPL''" "CHR ''|'' \<notin> set ''2024-01-05''"
    by simp_all
  have kept: "value_assigned (text_field []) (children (text_field [])) ''AAPL'' = ''AAPL''"
    "value_assigned (text_field []) (children (text_field [])) ''2024-01-05'' = ''2024-01-05''"
    by (simp_all add: text_field_def strip_newlines_def)
  note run = showDbChart_delegates[OF example_page_document(1) v clean example_page_document(2,3) kept,
      of ?h]
  have after: "map_option val (document (snd (showChart ?h ?s')) ''symbol'') = Some ''AAPL''"
    "map_option val (document (snd (showChart ?h ?s')) ''purchase-date'') = Some ''2024-01-05''"
    "effects (snd (showChart ?h ?s'))
      = effects (snd (showChart ?h (example_page ''AAPL|2024-01-05'' ''AAPL'' ''2024-01-05'')))"
    by code_simp+
  have selected: "map_option val (document ?s ''db-entries'') = Some (''AAPL'' @ ''|'' @ ''2024-01-05'')"
    by (simp add: example_page_document drop_down_list_def)
  show ?thesis
    unfolding run using selected kept after by simp
qed

subsection \<open>renderChart\<close>

text \<open>
  C6. On a page with the container, and for chart data that is not null or undefined,
  \<^verbatim>\<open>renderChart\<close> empties the container when a chart existed, and only then creates a
  chart, whose element the library appends to the container: at the end the container holds
  the new chart after what it held before, or the new chart alone when a chart existed.
  The chart is kept in \<^verbatim>\<open>chart\<close>. \<^verbatim>\<open>renderChart\<close> adds a candlestick series with the fixed
  colours and gives it the candlestick data, adds a histogram series on the price scale
  \<^verbatim>\<open>volume\<close> with the margins \<^verbatim>\<open>top: 0.8, bottom: 0\<close> and gives it the volume data, sets on
  the candlestick series one marker, at the purchase timestamp, below the bar, with the text
  \<^verbatim>\<open>BUY\<close>, and fits the time scale to the content.
\<close>

theorem renderChart_effects:
  assumes "document s ''chart-container'' = Some container"
    and "get_prop data ''candlestick'' = Inr candlestick"
    and "get_prop data ''volume'' = Inr volume"
    and "get_prop data ''purchase_timestamp'' = Inr time"
  shows "renderChart data symbol s =
      (Inr (),
       s\<lparr>document := (document s)(''chart-container'' \<mapsto>
            append_child (Chart_Element (length (lib s)))
              (if chart s = None then container else set_children [] container)),
         chart := Some (length (lib s)),
         lib := lib s @
           [CreateChart ''chart-container'' chart_options,
            AddCandlestickSeries (length (lib s)) candlestick_options,
            SetData (length (lib s) + 1) candlestick,
            AddHistogramSeries (length (lib s)) volume_options,
            SetData (length (lib s) + 3) volume,
            SetMarkers (length (lib s) + 1) (Arr [purchase_marker time]),
            FitContent (length (lib s))]\<rparr>) \<and>
     children (append_child (Chart_Element (length (lib s)))
                (if chart s = None then container else set_children [] container)) =
       (if chart s = None then children container else []) @ [Chart_Element (length (lib s))] \<and>
     get_prop candlestick_options ''upColor'' = Inr (Str ''#26a69a'') \<and>
     get_prop candlestick_options ''downColor'' = Inr (Str ''#ef5350'') \<and>
     get_prop volume_options ''priceScaleId'' = Inr (Str ''volume'') \<and>
     get_prop volume_options ''scaleMargins'' =
       Inr (Obj [(''top'', Num (dec_lit 8 10)), (''bottom'', Num (int_lit 0))]) \<and>
     get_prop (purchase_marker time) ''time'' = Inr time \<and>
     get_prop (purchase_marker time) ''position'' = Inr (Str ''belowBar'') \<and>
     get_prop (purchase_marker time) ''text'' = Inr (Str ''BUY'')"
proof -
  have run: "renderChart data symbol s =
      (Inr (),
       s\<lparr>document := (document s)(''chart-container'' \<mapsto>
            append_child (Chart_Element (length (lib s)))
              (if chart s = None then container else set_children [] container)),
         chart := Some (length (lib s)),
         lib := lib s @
           [CreateChart ''chart-container'' chart_options,
            AddCandlestickSeries (length (lib s)) candlestick_options,
            SetData (length (lib s) + 1) candlestick,
            AddHistogramSeries (length (lib s)) volume_options,
            SetData (length (lib s) + 3) volume,
            SetMarkers (length (lib s) + 1) (Arr [purchase_marker time]),
            FitContent (length (lib s))]\<rparr>)"
    using assms
    by (cases "chart s")
       (simp_all add: renderChart_def createChart_def LightweightCharts_createChart_def
          fragment_empty run_defs)
  have held: "children (append_child (Chart_Element (length (lib s)))
                (if chart s = None then container else set_children [] container)) =
       (if chart s = None then children container else []) @ [Chart_Element (length (lib s))]"
    by (simp add: append_child_def set_children_def)
  have opts: "get_prop candlestick_options ''upColor'' = Inr (Str ''#26a69a'')"
    "get_prop candlestick_options ''downColor'' = Inr (Str ''#ef5350'')"
    "get_prop volume_options ''priceScaleId'' = Inr (Str ''volume'')"
    "get_prop volume_options ''scaleMargins'' =
       Inr (Obj [(''top'', Num (dec_lit 8 10)), (''bottom'', Num (int_lit 0))])"
    "get_prop (purchase_marker time) ''time'' = Inr time"
    "get_prop (purchase_marker time) ''position'' = Inr (Str ''belowBar'')"
    "get_prop (purchase_marker time) ''text'' = Inr (Str ''BUY'')"
    by (simp_all add: candlestick_options_def volume_options_def purchase_marker_def)
  from run held opts show ?thesis by (intro conjI)
qed

theorem renderChart_effects_witness:
  "get_prop example_chart_data ''purchase_timestamp'' = Inr (Num (int_lit 1704412800)) \<and>
   fst (renderChart example_chart_data ''AAPL'' (example_page [] ''AAPL'' ''2024-01-05'')) = Inr () \<and>
   chart (snd (renderChart example_chart_data ''AAPL'' (example_page [] ''AAPL'' ''2024-01-05'')))
     = Some 0 \<and>
   length (lib (snd (renderChart example_chart_data ''AAPL'' (example_page [] ''AAPL'' ''2024-01-05''))))
     = 7 \<and>
   lib (snd (renderChart example_chart_data ''AAPL'' (example_page [] ''AAPL'' ''2024-01-05''))) ! 5
     = SetMarkers 1 (Arr [purchase_marker (Num (int_lit 1704412800))]) \<and>
   map_option children (document (snd (renderChart example_chart_data ''AAPL''
        (example_page [] ''AAPL'' ''2024-01-05''))) ''chart-container'')
     = Some [Chart_Element 0] \<and>
   chart (snd (renderChart example_chart_data ''AAPL''
        (snd (renderChart example_chart_data ''AAPL'' (example_page [] ''AAPL'' ''2024-01-05'')))))
     = Some 7 \<and>
   map_option children (document (snd (renderChart example_chart_data ''AAPL''
        (snd (renderChart example_chart_data ''AAPL'' (example_page [] ''AAPL'' ''2024-01-05'')))))
        ''chart-container'')
     = Some [Chart_Element 7]"
proof -
  let ?s = "example_page [] ''AAPL'' ''2024-01-05''"
  let ?candlestick = "Arr
         [Obj [(''time'', Num (int_lit 1704412800)), (''open'', Num (int_lit 10)),
               (''high'', Num (int_lit 12)), (''low'', Num (int_lit 9)),
               (''close'', Num (int_lit 11))]]"
  let ?volume = "Arr
         [Obj [(''time'', Num (int_lit 1704412800)), (''value'', Num (int_lit 1000))]]"
  let ?time = "Num (int_lit 1704412800)"
  let ?first = "append_child (Chart_Element 0) blank"
  let ?s1 = "?s\<lparr>document := (document ?s)(''chart-container'' \<mapsto> ?first),
         chart := Some 0,
         lib := [CreateChart ''chart-container'' chart_options,
            AddCandlestickSeries 0 candlestick_options,
            SetData 1 ?candlestick,
            AddHistogramSeries 0 volume_options,
            SetData 3 ?volume,
            SetMarkers 1 (Arr [purchase_marker ?time]),
            FitContent 0]\<rparr>"
  have data: "get_prop example_chart_data ''candlestick'' = Inr ?candlestick"
    "get_prop example_chart_data ''volume'' = Inr ?volume"
    "get_prop example_chart_data ''purchase_timestamp'' = Inr ?time"
    by (simp_all add: example_chart_data_def)
  have e: "lib ?s = []" "chart ?s = None"
    by (simp_all add: example_page_def)
  from renderChart_effects[OF example_page_document(4) data,
      where selected1 = "[]" and symbol1 = "''AAPL''" and date1 = "''2024-01-05''"
        and symbol = "''AAPL''"]
  have first: "renderChart example_chart_data ''AAPL'' ?s = (Inr (), ?s1)"
    by (simp add: e)
  have container: "document ?s1 ''chart-container'' = Some ?first"
    by simp
  have e1: "lib ?s1 = [CreateChart ''chart-container'' chart_options,
            AddCandlestickSeries 0 candlestick_options,
            SetData 1 ?candlestick,
            AddHistogramSeries 0 volume_options,
            SetData 3 ?volume,
            SetMarkers 1 (Arr [purchase_marker ?time]),
            FitContent 0]" "chart ?s1 = Some 0"
    by simp_all
  from renderChart_effects[OF container data, where symbol = "''AAPL''"]
  have second: "chart (snd (renderChart example_chart_data ''AAPL'' ?s1)) = Some 7"
    "map_option children (document (snd (renderChart example_chart_data ''AAPL'' ?s1))
        ''chart-container'') = Some [Chart_Element 7]"
    by (simp_all add: e1)
  have held: "children ?first = [Chart_Element 0]"
    by (simp add: append_child_def set_children_def blank_def)
  show ?thesis
    unfolding first using data(3) second held by simp
qed

subsection \<open>loadDbEntries\<close>

text \<open>
  C7, as the specification states it, fails: the symbol and the date go into the markup
  as they are. For the one record with the symbol \<^verbatim>\<open>A\<close>, double quote, \<^verbatim>\<open>B\<close> and the date
  \<^verbatim>\<open>D\<close>, the attribute \<^verbatim>\<open>value\<close> ends at the quote: the selection control gets one option,
  whose value is \<^verbatim>\<open>A\<close>, with a second attribute made of the rest. For the one record with
  the symbol \<^verbatim>\<open><option value=X>\<close> it gets two options, the second with the value \<^verbatim>\<open>X\<close>.
  And a carriage return in the symbol is a line feed in the value of the option.
\<close>

theorem loadDbEntries_quote_in_symbol:
  "fetch_result (example_host (Inl TypeError) (Inr (Inr (Arr
      [Obj [(''symbol'', Str (''A'' @ dquote @ ''B'')), (''date'', Str ''D'')]]))))
     \<lparr>http_method = ''GET'', url = ''/api/entries'', headers = [], body = None\<rparr>
     = Inr (Inr (Arr [Obj [(''symbol'', Str (''A'' @ dquote @ ''B'')), (''date'', Str ''D'')]])) \<and>
   map_option children (document (snd (loadDbEntries (example_host (Inl TypeError) (Inr (Inr (Arr
      [Obj [(''symbol'', Str (''A'' @ dquote @ ''B'')), (''date'', Str ''D'')]]))))
      (example_page [] [] []))) ''db-entries'')
     = Some [Option_Element [(''value'', ''A''), (''b|d'' @ dquote, [])]
               (''A'' @ dquote @ ''B - D'')] \<and>
   map_option (map option_value \<circ> children) (document (snd (loadDbEntries
      (example_host (Inl TypeError) (Inr (Inr (Arr
      [Obj [(''symbol'', Str (''A'' @ dquote @ ''B'')), (''date'', Str ''D'')]]))))
      (example_page [] [] []))) ''db-entries'')
     = Some [''A''] \<and>
   ''A'' \<noteq> (''A'' @ dquote @ ''B'') @ ''|'' @ ''D'' \<and>
   map_option children (document (snd (loadDbEntries (example_host (Inl TypeError) (Inr (Inr (Arr
      [Obj [(''symbol'', Str ''<option value=X>''), (''date'', Str ''D'')]]))))
      (example_page [] [] []))) ''db-entries'')
     = Some [Option_Element [(''value'', ''<option value=X>|D'')] [],
             Option_Element [(''value'', ''X'')] '' - D''] \<and>
   map_option (map option_value \<circ> children) (document (snd (loadDbEntries
      (example_host (Inl TypeError) (Inr (Inr (Arr
      [Obj [(''symbol'', Str [CHR ''A'', CHR 0x0D, CHR ''B'']), (''date'', Str ''D'')]]))))
      (example_page [] [] []))) ''db-entries'')
     = Some [[CHR ''A'', CHR 0x0A, CHR ''B''] @ ''|D'']"
  by code_simp

text \<open>
  C7, amended. \<^verbatim>\<open>loadDbEntries\<close> requests \<^verbatim>\<open>/api/entries\<close>. When the answer is an array
  of entries whose symbols and dates, as they are printed, are plain (no double quote,
  ampersand, less-than sign, NUL or carriage return), the children of the selection control
  become one \<^verbatim>\<open>option\<close> per entry, in order, whose \<^verbatim>\<open>value\<close> is \<^verbatim>\<open>symbol|date\<close> and whose text
  is \<^verbatim>\<open>symbol - date\<close>. When the request is rejected, its body does not parse, or the answer
  is not an array of entries that can be printed, the error is written to the console; the
  control stays as it was and no alert is shown.
\<close>

theorem loadDbEntries_cases:
  assumes "document s ''db-entries'' = Some select"
  shows
    "(fetch_result h \<lparr>http_method = ''GET'', url = ''/api/entries'', headers = [], body = None\<rparr>
        = Inr (Inr (Arr entries)) \<and>
      list_all2 (\<lambda>entry (symbol, date).
         bindE (get_prop entry ''symbol'') ToString = Inr symbol \<and>
         bindE (get_prop entry ''date'') ToString = Inr date)
        entries records \<and>
      list_all (\<lambda>(symbol, date). plain symbol \<and> plain date) records \<longrightarrow>
        loadDbEntries h s =
          (Inr (),
           s\<lparr>effects := effects s @
                [Fetch \<lparr>http_method = ''GET'', url = ''/api/entries'', headers = [], body = None\<rparr>],
             document := (document s)(''db-entries'' \<mapsto>
                set_children
                  (map (\<lambda>(symbol, date).
                      Option_Element [(''value'', symbol @ ''|'' @ date)] (symbol @ '' - '' @ date))
                    records)
                  select)\<rparr>)) \<and>
     (fetch_result h \<lparr>http_method = ''GET'', url = ''/api/entries'', headers = [], body = None\<rparr>
        = Inl e \<or>
      fetch_result h \<lparr>http_method = ''GET'', url = ''/api/entries'', headers = [], body = None\<rparr>
        = Inr (Inl e) \<or>
      (\<exists>v. fetch_result h \<lparr>http_method = ''GET'', url = ''/api/entries'', headers = [], body = None\<rparr>
             = Inr (Inr v) \<and>
           array_map option_markup v = Inl e) \<longrightarrow>
        loadDbEntries h s =
          (Inr (),
           s\<lparr>effects := effects s @
             [Fetch \<lparr>http_method = ''GET'', url = ''/api/entries'', headers = [], body = None\<rparr>,
              ConsoleError ''Error loading database entries:'' e]\<rparr>))"
proof -
  let ?request = "\<lparr>http_method = ''GET'', url = ''/api/entries'', headers = [], body = None\<rparr>"
  have request: "get_request ''/api/entries'' = ?request"
    by (simp add: get_request_def)
  have ok: "loadDbEntries h s =
      (Inr (),
       s\<lparr>effects := effects s @ [Fetch ?request],
         document := (document s)(''db-entries'' \<mapsto>
            set_children
              (map (\<lambda>(symbol, date).
                  Option_Element [(''value'', symbol @ ''|'' @ date)] (symbol @ '' - '' @ date))
                records)
              select)\<rparr>)"
    if answer: "fetch_result h ?request = Inr (Inr (Arr entries))"
      and printed: "list_all2 (\<lambda>entry (symbol, date).
         bindE (get_prop entry ''symbol'') ToString = Inr symbol \<and>
         bindE (get_prop entry ''date'') ToString = Inr date) entries records"
      and plain: "list_all (\<lambda>(symbol, date). plain symbol \<and> plain date) records"
    using assms answer
    by (simp add: loadDbEntries_def request array_map_def collect_printed[OF printed] join_empty
        fragment_options[OF plain] bindE_simps run_defs)
  have failed: "loadDbEntries h s =
      (Inr (), s\<lparr>effects := effects s @
         [Fetch ?request, ConsoleError ''Error loading database entries:'' e]\<rparr>)"
    if "fetch_result h ?request = Inl e \<or> fetch_result h ?request = Inr (Inl e) \<or>
      (\<exists>v. fetch_result h ?request = Inr (Inr v) \<and> array_map option_markup v = Inl e)"
    using assms that
    by (auto simp: loadDbEntries_def request bindE_simps run_defs)
  from ok failed show ?thesis by blast
qed

theorem loadDbEntries_cases_witness:
  "fetch_result (example_host (Inl TypeError) (Inr (Inr (Arr
      [Obj [(''symbol'', Str ''AAPL''), (''date'', Str ''2024-01-05'')],
       Obj [(''date'', Str ''2023-11-30''), (''symbol'', Str ''MSFT'')]]))))
     \<lparr>http_method = ''GET'', url = ''/api/entries'', headers = [], body = None\<rparr>
     = Inr (Inr (Arr
      [Obj [(''symbol'', Str ''AAPL''), (''date'', Str ''2024-01-05'')],
       Obj [(''date'', Str ''2023-11-30''), (''symbol'', Str ''MSFT'')]])) \<and>
   plain ''AAPL'' \<and> plain ''2024-01-05'' \<and> plain ''MSFT'' \<and> plain ''2023-11-30'' \<and>
   map_option children (document (snd (loadDbEntries (example_host (Inl TypeError) (Inr (Inr (Arr
      [Obj [(''symbol'', Str ''AAPL''), (''date'', Str ''2024-01-05'')],
       Obj [(''date'', Str ''2023-11-30''), (''symbol'', Str ''MSFT'')]]))))
      (example_page [] [] []))) ''db-entries'')
     = Some [Option_Element [(''value'', ''AAPL|2024-01-05'')] ''AAPL - 2024-01-05'',
             Option_Element [(''value'', ''MSFT|2023-11-30'')] ''MSFT - 2023-11-30''] \<and>
   map_option val (document (snd (loadDbEntries (example_host (Inl TypeError) (Inr (Inr (Arr
      [Obj [(''symbol'', Str ''AAPL''), (''date'', Str ''2024-01-05'')],
       Obj [(''date'', Str ''2023-11-30''), (''symbol'', Str ''MSFT'')]]))))
      (example_page [] [] []))) ''db-entries'')
     = Some ''AAPL|2024-01-05'' \<and>
   effects (snd (loadDbEntries (example_host (Inl TypeError) (Inr (Inr (Arr
      [Obj [(''symbol'', Str ''AAPL''), (''date'', Str ''2024-01-05'')],
       Obj [(''date'', Str ''2023-11-30''), (''symbol'', Str ''MSFT'')]]))))
      (example_page [] [] [])))
     = [Fetch \<lparr>http_method = ''GET'', url = ''/api/entries'', headers = [], body = None\<rparr>] \<and>
   fetch_result (example_host (Inl TypeError) (Inl (Error ''offline'')))
     \<lparr>http_method = ''GET'', url = ''/api/entries'', headers = [], body = None\<rparr>
     = Inl (Error ''offline'') \<and>
   loadDbEntries (example_host (Inl TypeError) (Inl (Error ''offline''))) (example_page [] [] [])
     = (Inr (), (example_page [] [] [])\<lparr>effects :=
          [Fetch \<lparr>http_method = ''GET'', url = ''/api/entries'', headers = [], body = None\<rparr>,
           ConsoleError ''Error loading database entries:'' (Error ''offline'')]\<rparr>)"
proof -
  let ?request = "\<lparr>http_method = ''GET'', url = ''/api/entries'', headers = [], body = None\<rparr>"
  let ?entries = "[Obj [(''symbol'', Str ''AAPL''), (''date'', Str ''2024-01-05'')],
       Obj [(''date'', Str ''2023-11-30''), (''symbol'', Str ''MSFT'')]]"
  let ?records = "[(''AAPL'', ''2024-01-05''), (''MSFT'', ''2023-11-30'')]"
  let ?options = "[Option_Element [(''value'', ''AAPL|2024-01-05'')] ''AAPL - 2024-01-05'',
       Option_Element [(''value'', ''MSFT|2023-11-30'')] ''MSFT - 2023-11-30'']"
  let ?good = "example_host (Inl TypeError) (Inr (Inr (Arr ?entries)))"
  let ?bad = "example_host (Inl TypeError) (Inl (Error ''offline''))"
  let ?s = "example_page [] [] []"
  let ?select = "drop_down_list
      (if ([]::string) = [] then [] else [Option_Element [(''value'', [])] []]) []"
  have answer: "fetch_result ?good ?request = Inr (Inr (Arr ?entries))"
    by (simp add: example_host_def)
  have printed: "list_all2 (\<lambda>entry (symbol, date).
         bindE (get_prop entry ''symbol'') ToString = Inr symbol \<and>
         bindE (get_prop entry ''date'') ToString = Inr date)
        ?entries ?records"
    by (simp add: bindE_simps)
  have plain: "plain ''AAPL''" "plain ''2024-01-05''" "plain ''MSFT''" "plain ''2023-11-30''"
    by (simp_all add: plain_def)
  then have records: "list_all (\<lambda>(symbol, date). plain symbol \<and> plain date) ?records"
    by simp
  have rejected: "fetch_result ?bad ?request = Inl (Error ''offline'')"
    by (simp add: example_host_def)
  have e: "effects ?s = []"
    by (simp add: example_page_def)
  from loadDbEntries_cases[OF example_page_document(1),
      where h = ?good and entries = ?entries and records = ?records and e = TypeError
        and selected1 = "[]" and symbol1 = "[]" and date1 = "[]"]
    answer printed records
  have good: "loadDbEntries ?good ?s =
      (Inr (), ?s\<lparr>effects := effects ?s @ [Fetch ?request],
                  document := (document ?s)(''db-entries'' \<mapsto> set_children ?options ?select)\<rparr>)"
    by simp
  from loadDbEntries_cases[OF example_page_document(1),
      where h = ?bad and entries = "[]" and records = "[]" and e = "Error ''offline''"
        and selected1 = "[]" and symbol1 = "[]" and date1 = "[]"]
    rejected
  have bad: "loadDbEntries ?bad ?s =
      (Inr (), ?s\<lparr>effects := effects ?s @
             [Fetch ?request,
              ConsoleError ''Error loading database entries:'' (Error ''offline'')]\<rparr>)"
    by blast
  have after: "children (set_children ?options ?select) = ?options"
    "val (set_children ?options ?select) = ''AAPL|2024-01-05''"
    by (simp_all add: set_children_def drop_down_list_def selected_value_def)
  show ?thesis
    unfolding good bad using answer rejected plain after by (simp add: e)
qed

end
